theory Spec2Isabelle
  imports Complex_Main "HOL-Library.Log_Nat"
begin

section \<open>Binary floating point\<close>

text \<open>
  Python's \<^verbatim>\<open>float\<close> is the IEEE 754 binary64 format. A finite value is the rational
  number it stands for. The two zeros are one value: they compare equal, both are false,
  and no operation of the client gives a different number for one than for the other.
  Beside the finite values there are the two infinities and NaN. Every result of an
  operation is the exact result rounded to the nearest value of the format, a tie to the
  one with an even significand: 53 bits, exponents from -1022 to 1023, with gradual
  underflow, and overflow to an infinity.
\<close>

datatype double = Fin rat | PInf | NInf | NaN

definition pow2 :: "int \<Rightarrow> rat" where
  "pow2 e = (if 0 \<le> e then 2 ^ nat e else 1 / 2 ^ nat (- e))"

definition ilog2 :: "rat \<Rightarrow> int" where
  \<comment> \<open>the exponent of a positive number: the largest e with 2 to the e at most q\<close>
  "ilog2 q =
     (let (a, b) = quotient_of q; k = bitlen a - bitlen b
      in if pow2 k \<le> q then k else k - 1)"

definition py_round :: "rat \<Rightarrow> int" where
  \<comment> \<open>to the nearest integer, a tie to the even one\<close>
  "py_round q =
     (let f = \<lfloor>q\<rfloor>; d = q - of_int f
      in if d < 1 / 2 then f else if 1 / 2 < d then f + 1
         else if even f then f else f + 1)"

definition fl :: "rat \<Rightarrow> double" where
  \<comment> \<open>the binary64 value nearest to a number; also the value of a decimal literal\<close>
  "fl q =
     (if q = 0 then Fin 0
      else
        (let e = max (ilog2 \<bar>q\<bar>) (- 1022);
             u = pow2 (e - 52);
             r = of_int (py_round (q / u)) * u
         in if pow2 1024 \<le> \<bar>r\<bar> then (if 0 < q then PInf else NInf) else Fin r))"

fun fmul :: "double \<Rightarrow> double \<Rightarrow> double" where
  \<comment> \<open>\<^verbatim>\<open>a * b\<close>\<close>
  "fmul (Fin a) (Fin b) = fl (a * b)"
| "fmul NaN b = NaN"
| "fmul a NaN = NaN"
| "fmul (Fin a) PInf = (if a = 0 then NaN else if 0 < a then PInf else NInf)"
| "fmul (Fin a) NInf = (if a = 0 then NaN else if 0 < a then NInf else PInf)"
| "fmul PInf (Fin b) = (if b = 0 then NaN else if 0 < b then PInf else NInf)"
| "fmul NInf (Fin b) = (if b = 0 then NaN else if 0 < b then NInf else PInf)"
| "fmul PInf PInf = PInf"
| "fmul NInf NInf = PInf"
| "fmul PInf NInf = NInf"
| "fmul NInf PInf = NInf"

fun fquot :: "double \<Rightarrow> double \<Rightarrow> double" where
  \<comment> \<open>\<^verbatim>\<open>a / b\<close> for a divisor that is not zero\<close>
  "fquot (Fin a) (Fin b) = fl (a / b)"
| "fquot NaN b = NaN"
| "fquot a NaN = NaN"
| "fquot (Fin a) b = Fin 0"
| "fquot PInf (Fin b) = (if 0 < b then PInf else NInf)"
| "fquot NInf (Fin b) = (if 0 < b then NInf else PInf)"
| "fquot a b = NaN"

fun fgt :: "double \<Rightarrow> double \<Rightarrow> bool" where
  \<comment> \<open>\<^verbatim>\<open>a > b\<close>; false when either is NaN\<close>
  "fgt NaN b = False"
| "fgt a NaN = False"
| "fgt (Fin a) (Fin b) = (b < a)"
| "fgt PInf b = (b \<noteq> PInf)"
| "fgt a NInf = (a \<noteq> NInf)"
| "fgt a b = False"

definition fmax :: "double \<Rightarrow> double \<Rightarrow> double" where
  \<comment> \<open>\<^verbatim>\<open>max(a, b)\<close>: the second argument only when it is greater than the first\<close>
  "fmax a b = (if fgt b a then b else a)"

section \<open>Python values, exceptions and dictionaries\<close>

text \<open>
  The client of \<^verbatim>\<open>basic_bot.py\<close> handles JSON-like values: decoded response bodies and
  the scalars stored in request parameters.
\<close>

datatype pyval =
    PNone
  | PBool bool
  | PInt int
  | PFloat double
  | PStr string
  | PList "pyval list"
  | PDict "(string \<times> pyval) list"

text \<open>
  A \<^verbatim>\<open>dict\<close> keeps insertion order, and the order decides the query string that is
  signed, so a dictionary is an association list with distinct keys.
\<close>

type_synonym pydict = "(string \<times> pyval) list"

datatype exn =
    ValueError string
  | RuntimeError string
  | KeyError string
  | TypeError
  | ZeroDivisionError
  | OverflowError
  | RequestException

definition raise_or :: "exn + 'a \<Rightarrow> ('a \<Rightarrow> exn + 'b) \<Rightarrow> exn + 'b" where
  "raise_or r f = (case r of Inl e \<Rightarrow> Inl e | Inr v \<Rightarrow> f v)"

definition has_key :: "pydict \<Rightarrow> string \<Rightarrow> bool" where
  "has_key d k = (k \<in> set (map fst d))"

definition dict_get :: "pydict \<Rightarrow> string \<Rightarrow> pyval" where
  \<comment> \<open>\<^verbatim>\<open>d.get(k)\<close>: \<^verbatim>\<open>None\<close> when the key is missing\<close>
  "dict_get d k = (case map_of d k of None \<Rightarrow> PNone | Some v \<Rightarrow> v)"

definition dict_set :: "pydict \<Rightarrow> string \<Rightarrow> pyval \<Rightarrow> pydict" where
  \<comment> \<open>\<^verbatim>\<open>d[k] = v\<close>: an existing key keeps its position, a new key goes last\<close>
  "dict_set d k v =
     (if has_key d k then map (\<lambda>(k', v'). if k' = k then (k', v) else (k', v')) d
      else d @ [(k, v)])"

definition setdefault :: "pydict \<Rightarrow> string \<Rightarrow> pyval \<Rightarrow> pydict" where
  "setdefault d k v = (if has_key d k then d else d @ [(k, v)])"

definition dict_update :: "pydict \<Rightarrow> pydict \<Rightarrow> pydict" where
  "dict_update d kvs = fold (\<lambda>(k, v) acc. dict_set acc k v) kvs d"

definition py_getitem :: "pyval \<Rightarrow> string \<Rightarrow> exn + pyval" where
  \<comment> \<open>\<^verbatim>\<open>obj[k]\<close> with a string key\<close>
  "py_getitem obj k =
     (case obj of
        PDict d \<Rightarrow> (case map_of d k of None \<Rightarrow> Inl (KeyError k) | Some v \<Rightarrow> Inr v)
      | _ \<Rightarrow> Inl TypeError)"

definition py_iter :: "pyval \<Rightarrow> exn + pyval list" where
  \<comment> \<open>the elements a \<^verbatim>\<open>for\<close> loop visits\<close>
  "py_iter obj =
     (case obj of
        PList xs \<Rightarrow> Inr xs
      | PDict d \<Rightarrow> Inr (map (\<lambda>(k, v). PStr k) d)
      | PStr s \<Rightarrow> Inr (map (\<lambda>c. PStr [c]) s)
      | _ \<Rightarrow> Inl TypeError)"

section \<open>Floating-point operations that can raise\<close>

definition fdiv :: "double \<Rightarrow> double \<Rightarrow> exn + double" where
  \<comment> \<open>\<^verbatim>\<open>a / b\<close>: any division by zero raises\<close>
  "fdiv a b = (if b = Fin 0 then Inl ZeroDivisionError else Inr (fquot a b))"

definition fround :: "double \<Rightarrow> exn + int" where
  \<comment> \<open>\<^verbatim>\<open>round(a)\<close>: an integer; an infinity or NaN raises\<close>
  "fround a =
     (case a of
        Fin q \<Rightarrow> Inr (py_round q)
      | NaN \<Rightarrow> Inl (ValueError ''cannot convert float NaN to integer'')
      | _ \<Rightarrow> Inl OverflowError)"

definition int_to_double :: "int \<Rightarrow> exn + double" where
  \<comment> \<open>an integer as a float, as in \<^verbatim>\<open>n * step\<close> and \<^verbatim>\<open>float(n)\<close>; one that is too large
      raises\<close>
  "int_to_double n = (case fl (of_int n) of Fin r \<Rightarrow> Inr (Fin r) | _ \<Rightarrow> Inl OverflowError)"

section \<open>Strings\<close>

definition upper_char :: "char \<Rightarrow> char" where
  "upper_char c =
     (case map_of (zip ''abcdefghijklmnopqrstuvwxyz'' ''ABCDEFGHIJKLMNOPQRSTUVWXYZ'') c of
        None \<Rightarrow> c | Some u \<Rightarrow> u)"

definition lower_char :: "char \<Rightarrow> char" where
  "lower_char c =
     (case map_of (zip ''ABCDEFGHIJKLMNOPQRSTUVWXYZ'' ''abcdefghijklmnopqrstuvwxyz'') c of
        None \<Rightarrow> c | Some l \<Rightarrow> l)"

definition upper :: "string \<Rightarrow> string" where
  \<comment> \<open>\<^verbatim>\<open>str.upper\<close> on ASCII text\<close>
  "upper s = map upper_char s"

definition lower :: "string \<Rightarrow> string" where
  "lower s = map lower_char s"

definition rstrip_slash :: "string \<Rightarrow> string" where
  \<comment> \<open>\<^verbatim>\<open>s.rstrip("/")\<close>\<close>
  "rstrip_slash s = rev (dropWhile (\<lambda>c. c = CHR ''/'') (rev s))"

fun str_nat :: "nat \<Rightarrow> string" where
  "str_nat n =
     (if n < 10 then [''0123456789'' ! n]
      else str_nat (n div 10) @ [''0123456789'' ! (n mod 10)])"

declare str_nat.simps [simp del]

definition str_int :: "int \<Rightarrow> string" where
  "str_int i = (if i < 0 then CHR ''-'' # str_nat (nat (- i)) else str_nat (nat i))"

definition str_bool :: "bool \<Rightarrow> string" where
  "str_bool b = (if b then ''True'' else ''False'')"

section \<open>The client, its collaborators and the world it acts on\<close>

record bot =
  api_key :: string
  api_secret :: string
  base_url :: string
  recv_window :: int
  timeout :: int

definition init_bot :: "string \<Rightarrow> string \<Rightarrow> string \<Rightarrow> int \<Rightarrow> int \<Rightarrow> bot" where
  \<comment> \<open>\<^verbatim>\<open>BasicBot.__init__\<close>; strings are byte strings, so \<^verbatim>\<open>encode\<close> is the identity\<close>
  "init_bot key secret burl rw tmo =
     \<lparr>api_key = key, api_secret = secret, base_url = rstrip_slash burl,
      recv_window = rw, timeout = tmo\<rparr>"

record request =
  req_method :: string
  req_url :: string
  req_params :: pydict

record response =
  resp_status :: int
  resp_text :: string
  resp_json :: "pyval option"  \<comment> \<open>\<^verbatim>\<open>r.json()\<close>; \<^verbatim>\<open>None\<close> when it raises \<^verbatim>\<open>ValueError\<close>\<close>

definition ok :: "response \<Rightarrow> bool" where
  \<comment> \<open>\<^verbatim>\<open>Response.ok\<close> of the HTTP library: no 4xx or 5xx status\<close>
  "ok r = (\<not> (400 \<le> resp_status r \<and> resp_status r < 600))"

text \<open>
  What the program takes from its libraries and its environment: the query-string
  encoder, the raw HMAC-SHA256 digest (bytes as numbers), the network (which sees the
  requests attempted before, and answers or raises), \<^verbatim>\<open>repr\<close> of compound values,
  \<^verbatim>\<open>float\<close> of a string, and the clock in milliseconds at its n-th reading.
\<close>

record ext =
  urlencode :: "pydict \<Rightarrow> string"
  hmac_sha256 :: "string \<Rightarrow> string \<Rightarrow> nat list"
  transport :: "request list \<Rightarrow> request \<Rightarrow> response option"
  py_repr :: "pyval \<Rightarrow> string"
  float_of_str :: "string \<Rightarrow> double option"
  time_ms :: "nat \<Rightarrow> int"

datatype level = DEBUG | INFO | WARNING | ERROR

text \<open>
  The world: the dictionaries that exist (a reference is an index into \<open>heap\<close>), the HTTP
  calls attempted so far, the log records (level and the fixed part of the message) and
  the number of clock readings.
\<close>

record world =
  heap :: "pydict list"
  sent :: "request list"
  logged :: "(level \<times> string) list"
  ticks :: nat

definition alloc :: "pydict \<Rightarrow> world \<Rightarrow> nat \<times> world" where
  "alloc d w = (length (heap w), w\<lparr>heap := heap w @ [d]\<rparr>)"

definition heap_map :: "nat \<Rightarrow> (pydict \<Rightarrow> pydict) \<Rightarrow> world \<Rightarrow> world" where
  "heap_map a f w = w\<lparr>heap := (heap w)[a := f (heap w ! a)]\<rparr>"

definition log_msg :: "level \<Rightarrow> string \<Rightarrow> world \<Rightarrow> world" where
  "log_msg l m w = w\<lparr>logged := logged w @ [(l, m)]\<rparr>"

definition now_ms :: "ext \<Rightarrow> world \<Rightarrow> int \<times> world" where
  \<comment> \<open>\<^verbatim>\<open>int(time.time() * 1000)\<close>\<close>
  "now_ms x w = (time_ms x (ticks w), w\<lparr>ticks := Suc (ticks w)\<rparr>)"

definition py_str :: "ext \<Rightarrow> pyval \<Rightarrow> string" where
  \<comment> \<open>\<^verbatim>\<open>str(v)\<close>, also what an f-string interpolates\<close>
  "py_str x v =
     (case v of
        PStr s \<Rightarrow> s
      | PNone \<Rightarrow> ''None''
      | PBool b \<Rightarrow> str_bool b
      | PInt i \<Rightarrow> str_int i
      | _ \<Rightarrow> py_repr x v)"

section \<open>Signing\<close>

definition hexdigest :: "nat list \<Rightarrow> string" where
  "hexdigest bs =
     concat (map (\<lambda>b. [''0123456789abcdef'' ! ((b div 16) mod 16),
                         ''0123456789abcdef'' ! (b mod 16)]) bs)"

definition sign :: "ext \<Rightarrow> bot \<Rightarrow> pydict \<Rightarrow> world \<Rightarrow> string \<times> world" where
  \<comment> \<open>\<^verbatim>\<open>BasicBot._sign\<close>\<close>
  "sign x b data w =
     (let query = urlencode x data;
          signature = hexdigest (hmac_sha256 x (api_secret b) query)
      in (signature, log_msg DEBUG ''Signing query'' w))"

section \<open>The signed round trip\<close>

definition send :: "ext \<Rightarrow> string \<Rightarrow> string \<Rightarrow> pydict \<Rightarrow> world \<Rightarrow> response option \<times> world" where
  \<comment> \<open>\<^verbatim>\<open>session.get\<close>, \<^verbatim>\<open>session.post\<close>, \<^verbatim>\<open>session.delete\<close>: one attempted HTTP call\<close>
  "send x verb u ps w =
     (let rq = \<lparr>req_method = verb, req_url = u, req_params = ps\<rparr>
      in (transport x (sent w) rq, w\<lparr>sent := sent w @ [rq]\<rparr>))"

definition err_msg :: "ext \<Rightarrow> pyval \<Rightarrow> pyval" where
  \<comment> \<open>\<^verbatim>\<open>content.get("msg") if isinstance(content, dict) else str(content)\<close>\<close>
  "err_msg x content =
     (case content of PDict d \<Rightarrow> dict_get d ''msg'' | _ \<Rightarrow> PStr (py_str x content))"

definition decode_response :: "ext \<Rightarrow> response \<Rightarrow> exn + pyval" where
  \<comment> \<open>the end of \<^verbatim>\<open>_signed_request\<close>: decode the body, raise on a failure status\<close>
  "decode_response x r =
     (let content = (case resp_json r of Some j \<Rightarrow> j | None \<Rightarrow> PStr (resp_text r))
      in if \<not> ok r then
           Inl (RuntimeError (''API returned error '' @ str_int (resp_status r)
                              @ '': '' @ py_str x (err_msg x content)))
         else Inr content)"

definition signed_request ::
  "ext \<Rightarrow> bot \<Rightarrow> string \<Rightarrow> string \<Rightarrow> nat option \<Rightarrow> world \<Rightarrow> (exn + pyval) \<times> world" where
  \<comment> \<open>\<^verbatim>\<open>BasicBot._signed_request\<close>; the payload is a reference or \<^verbatim>\<open>None\<close>\<close>
  "signed_request x b meth path payload w =
     (let (a, w1) = (case payload of
                       None \<Rightarrow> alloc [] w
                     | Some p \<Rightarrow> if heap w ! p \<noteq> [] then alloc (heap w ! p) w else alloc [] w);
          w2 = heap_map a (\<lambda>d. setdefault d ''recvWindow'' (PInt (recv_window b))) w1;
          (t, w3) = now_ms x w2;
          w4 = heap_map a (\<lambda>d. dict_set d ''timestamp'' (PInt t)) w3;
          (signature, w5) = sign x b (heap w4 ! a) w4;
          w6 = heap_map a (\<lambda>d. dict_set d ''signature'' (PStr signature)) w5;
          u = base_url b @ path;
          w7 = log_msg INFO ''REQUEST'' w6;
          dispatched =
            (if upper meth = ''GET'' then Some (send x ''GET'' u (heap w7 ! a) w7)
             else if upper meth = ''POST'' then Some (send x ''POST'' u (heap w7 ! a) w7)
             else if upper meth = ''DELETE'' then Some (send x ''DELETE'' u (heap w7 ! a) w7)
             else None)
      in case dispatched of
           None \<Rightarrow> (Inl (ValueError ''Unsupported HTTP method''), w7)
         | Some (None, w8) \<Rightarrow>
             (Inl RequestException, log_msg ERROR ''Network error during API request'' w8)
         | Some (Some r, w8) \<Rightarrow> (decode_response x r, log_msg INFO ''RESPONSE'' w8))"

text \<open>
  The parameter set that the contract of the signed client prescribes, written from its
  words: the payload with \<^verbatim>\<open>recvWindow\<close> defaulted and \<^verbatim>\<open>timestamp\<close> set, then the
  signature of exactly that mapping stored under \<^verbatim>\<open>signature\<close>.
\<close>

definition signed_params :: "ext \<Rightarrow> bot \<Rightarrow> int \<Rightarrow> pydict \<Rightarrow> pydict" where
  "signed_params x b t P =
     (let Q = dict_set (setdefault P ''recvWindow'' (PInt (recv_window b))) ''timestamp'' (PInt t)
      in dict_set Q ''signature''
           (PStr (hexdigest (hmac_sha256 x (api_secret b) (urlencode x Q)))))"

text \<open>The HTTP call that carries such a parameter set.\<close>

definition signed_call :: "ext \<Rightarrow> bot \<Rightarrow> string \<Rightarrow> string \<Rightarrow> int \<Rightarrow> pydict \<Rightarrow> request" where
  "signed_call x b verb path t P =
     \<lparr>req_method = verb, req_url = base_url b @ path, req_params = signed_params x b t P\<rparr>"

section \<open>Instrument rules\<close>

record instrument_filter =
  min_qty :: double
  step_size :: double
  min_price :: double
  tick_size :: double

definition default_filter :: instrument_filter where
  \<comment> \<open>\<^verbatim>\<open>min_qty, step_size, min_price, tick_size = 0.001, 0.001, 0.01, 0.01\<close>\<close>
  "default_filter =
     \<lparr>min_qty = fl (1 / 1000), step_size = fl (1 / 1000),
      min_price = fl (1 / 100), tick_size = fl (1 / 100)\<rparr>"

definition py_float :: "ext \<Rightarrow> pyval \<Rightarrow> exn + double" where
  \<comment> \<open>\<^verbatim>\<open>float(v)\<close>\<close>
  "py_float x v =
     (case v of
        PStr s \<Rightarrow> (case float_of_str x s of
                     None \<Rightarrow> Inl (ValueError ''could not convert string to float'')
                   | Some r \<Rightarrow> Inr r)
      | PInt i \<Rightarrow> int_to_double i
      | PFloat r \<Rightarrow> Inr r
      | PBool b \<Rightarrow> Inr (Fin (if b then 1 else 0))
      | _ \<Rightarrow> Inl TypeError)"

definition hashable :: "pyval \<Rightarrow> bool" where
  "hashable v = (case v of PList xs \<Rightarrow> False | PDict d \<Rightarrow> False | _ \<Rightarrow> True)"

fun filters_by_type :: "pyval list \<Rightarrow> exn + (pyval \<times> pyval) list" where
  \<comment> \<open>\<^verbatim>\<open>{f['filterType']: f for f in ...}\<close>, as the entries in the order they are stored\<close>
  "filters_by_type [] = Inr []"
| "filters_by_type (f # fs) =
     raise_or (py_getitem f ''filterType'') (\<lambda>k.
       if \<not> hashable k then Inl TypeError
       else raise_or (filters_by_type fs) (\<lambda>kvs. Inr ((k, f) # kvs)))"

definition filters_getitem :: "(pyval \<times> pyval) list \<Rightarrow> string \<Rightarrow> exn + pyval" where
  \<comment> \<open>\<^verbatim>\<open>filters[name]\<close>: the last entry stored under the key wins\<close>
  "filters_getitem kvs name =
     (case filter (\<lambda>(k, f). k = PStr name) (rev kvs) of
        [] \<Rightarrow> Inl (KeyError name)
      | (k, f) # rest \<Rightarrow> Inr f)"

definition filter_field ::
  "ext \<Rightarrow> (pyval \<times> pyval) list \<Rightarrow> string \<Rightarrow> string \<Rightarrow> exn + double" where
  \<comment> \<open>\<^verbatim>\<open>float(filters[name][field])\<close>\<close>
  "filter_field x kvs name field =
     raise_or (filters_getitem kvs name) (\<lambda>f.
       raise_or (py_getitem f field) (py_float x))"

definition read_filters :: "ext \<Rightarrow> pyval \<Rightarrow> exn + instrument_filter" where
  \<comment> \<open>the body of the loop of \<^verbatim>\<open>place_order\<close> for the entry that matches\<close>
  "read_filters x s =
     raise_or (py_getitem s ''filters'') (\<lambda>listed.
     raise_or (py_iter listed) (\<lambda>fs.
     raise_or (filters_by_type fs) (\<lambda>kvs.
     raise_or (filter_field x kvs ''LOT_SIZE'' ''minQty'') (\<lambda>mq.
     raise_or (filter_field x kvs ''LOT_SIZE'' ''stepSize'') (\<lambda>ss.
     raise_or (filter_field x kvs ''PRICE_FILTER'' ''minPrice'') (\<lambda>mp.
     raise_or (filter_field x kvs ''PRICE_FILTER'' ''tickSize'') (\<lambda>ts.
       Inr \<lparr>min_qty = mq, step_size = ss, min_price = mp, tick_size = ts\<rparr>)))))))"

fun find_symbol :: "ext \<Rightarrow> string \<Rightarrow> pyval list \<Rightarrow> exn + instrument_filter" where
  \<comment> \<open>\<^verbatim>\<open>for s in info['symbols']: ... break\<close> with its \<^verbatim>\<open>else\<close>\<close>
  "find_symbol x symbol [] =
     Inl (ValueError (''Symbol '' @ symbol @ '' not found in exchangeInfo''))"
| "find_symbol x symbol (s # ss) =
     raise_or (py_getitem s ''symbol'') (\<lambda>v.
       if v = PStr symbol then read_filters x s else find_symbol x symbol ss)"

definition fetch_filters ::
  "ext \<Rightarrow> bot \<Rightarrow> string \<Rightarrow> world \<Rightarrow> (exn + instrument_filter) \<times> world" where
  \<comment> \<open>the \<^verbatim>\<open>try\<close> block of \<^verbatim>\<open>place_order\<close>\<close>
  "fetch_filters x b symbol w =
     (let (p, w0) = alloc [] w;
          (r, w1) = signed_request x b ''GET'' ''/fapi/v1/exchangeInfo'' (Some p) w0
      in (raise_or r (\<lambda>info.
          raise_or (py_getitem info ''symbols'') (\<lambda>syms.
          raise_or (py_iter syms) (find_symbol x symbol))), w1))"

section \<open>Rounding to the instrument's grid\<close>

definition round_step :: "double \<Rightarrow> double \<Rightarrow> exn + double" where
  \<comment> \<open>\<^verbatim>\<open>round(value / step) * step\<close>: the quotient, its rounding to an integer, the
      integer as a float, the product\<close>
  "round_step v step =
     raise_or (fdiv v step) (\<lambda>q.
     raise_or (fround q) (\<lambda>n.
     raise_or (int_to_double n) (\<lambda>m. Inr (fmul m step))))"

definition adjust :: "double \<Rightarrow> double \<Rightarrow> double option \<Rightarrow> exn + double option" where
  \<comment> \<open>\<^verbatim>\<open>if value: value = max(minimum, round_step(value, step))\<close>; only zero is false\<close>
  "adjust minimum step value =
     (case value of
        None \<Rightarrow> Inr None
      | Some v \<Rightarrow>
          if v = Fin 0 then Inr (Some v)
          else raise_or (round_step v step) (\<lambda>r. Inr (Some (fmax minimum r))))"

section \<open>Orders\<close>

record order_request =
  o_symbol :: string
  o_side :: string
  o_type :: string
  o_quantity :: "double option"
  o_price :: "double option"
  o_time_in_force :: string
  o_stop_price :: "double option"
  o_reduce_only :: bool
  o_close_position :: bool
  o_position_side :: "string option"

definition opt_float :: "double option \<Rightarrow> pyval" where
  "opt_float v = (case v of None \<Rightarrow> PNone | Some r \<Rightarrow> PFloat r)"

definition build_params ::
  "string \<Rightarrow> string \<Rightarrow> string \<Rightarrow> double option \<Rightarrow> double option \<Rightarrow> order_request
     \<Rightarrow> pydict" where
  \<comment> \<open>\<^verbatim>\<open>params\<close> of \<^verbatim>\<open>place_order\<close> before the entries with \<^verbatim>\<open>None\<close> are removed\<close>
  "build_params symbol side order_type quantity price oreq =
     (let params = [(''symbol'', PStr symbol),
                    (''side'', PStr side),
                    (''quantity'', opt_float quantity),
                    (''reduceOnly'', PStr (lower (str_bool (o_reduce_only oreq)))),
                    (''closePosition'', PStr (lower (str_bool (o_close_position oreq))))];
          params = (case o_position_side oreq of
                      None \<Rightarrow> params
                    | Some ps \<Rightarrow> if ps \<noteq> [] then dict_set params ''positionSide'' (PStr ps)
                                else params)
      in if order_type = ''MARKET'' then dict_set params ''type'' (PStr ''MARKET'')
         else if order_type = ''LIMIT'' then
           dict_update params [(''type'', PStr ''LIMIT''),
                               (''price'', opt_float price),
                               (''timeInForce'', PStr (o_time_in_force oreq))]
         else if order_type = ''STOP_LIMIT'' then
           dict_update params [(''type'', PStr ''STOP''),
                               (''price'', opt_float price),
                               (''stopPrice'', opt_float (o_stop_price oreq)),
                               (''timeInForce'', PStr (o_time_in_force oreq))]
         else params)"

definition drop_none :: "pydict \<Rightarrow> pydict" where
  \<comment> \<open>\<^verbatim>\<open>{k: v for k, v in params.items() if v is not None}\<close>\<close>
  "drop_none d = filter (\<lambda>(k, v). v \<noteq> PNone) d"

definition place_order :: "ext \<Rightarrow> bot \<Rightarrow> order_request \<Rightarrow> world \<Rightarrow> (exn + pyval) \<times> world" where
  \<comment> \<open>\<^verbatim>\<open>BasicBot.place_order\<close>\<close>
  "place_order x b oreq w =
     (let symbol = upper (o_symbol oreq);
          side = upper (o_side oreq);
          order_type = upper (o_type oreq)
      in if side \<noteq> ''BUY'' \<and> side \<noteq> ''SELL'' then
           (Inl (ValueError ''side must be BUY or SELL''), w)
         else if order_type \<noteq> ''MARKET'' \<and> order_type \<noteq> ''LIMIT''
                 \<and> order_type \<noteq> ''STOP_LIMIT'' then
           (Inl (ValueError ''order_type must be MARKET, LIMIT or STOP_LIMIT''), w)
         else
           (let (fetched, w1) = fetch_filters x b symbol w;
                (flt, w2) = (case fetched of
                               Inr f \<Rightarrow> (f, w1)
                             | Inl e \<Rightarrow> (default_filter,
                                         log_msg WARNING ''Could not fetch exchange info'' w1))
            in case adjust (min_qty flt) (step_size flt) (o_quantity oreq) of
                 Inl e \<Rightarrow> (Inl e, w2)
               | Inr quantity \<Rightarrow>
                   (case adjust (min_price flt) (tick_size flt) (o_price oreq) of
                      Inl e \<Rightarrow> (Inl e, w2)
                    | Inr price \<Rightarrow>
                        (let w3 = log_msg INFO ''Adjusted'' w2;
                             params = drop_none
                                        (build_params symbol side order_type quantity price oreq);
                             (p, w4) = alloc params w3
                         in signed_request x b ''POST'' ''/fapi/v1/order'' (Some p) w4))))"

definition id_params :: "string \<Rightarrow> int option \<Rightarrow> string option \<Rightarrow> pydict option" where
  \<comment> \<open>the check and the parameters that \<^verbatim>\<open>get_order\<close> and \<^verbatim>\<open>cancel_order\<close> share;
      \<^verbatim>\<open>None\<close> when neither identifier is given\<close>
  "id_params symbol order_id orig_client_order_id =
     (let has_id = (case order_id of None \<Rightarrow> False | Some i \<Rightarrow> i \<noteq> 0);
          has_orig = (case orig_client_order_id of None \<Rightarrow> False | Some s \<Rightarrow> s \<noteq> [])
      in if \<not> (has_id \<or> has_orig) then None
         else
           (let params = [(''symbol'', PStr (upper symbol))];
                params = (case order_id of
                            None \<Rightarrow> params
                          | Some i \<Rightarrow> if i \<noteq> 0 then dict_set params ''orderId'' (PInt i)
                                      else params);
                params = (case orig_client_order_id of
                            None \<Rightarrow> params
                          | Some s \<Rightarrow> if s \<noteq> [] then
                                        dict_set params ''origClientOrderId'' (PStr s)
                                      else params)
            in Some params))"

definition get_order ::
  "ext \<Rightarrow> bot \<Rightarrow> string \<Rightarrow> int option \<Rightarrow> string option \<Rightarrow> world \<Rightarrow> (exn + pyval) \<times> world" where
  \<comment> \<open>\<^verbatim>\<open>BasicBot.get_order\<close>\<close>
  "get_order x b symbol order_id orig_client_order_id w =
     (case id_params symbol order_id orig_client_order_id of
        None \<Rightarrow>
          (Inl (ValueError ''Either order_id or orig_client_order_id must be provided''), w)
      | Some params \<Rightarrow>
          (let (p, w1) = alloc params w
           in signed_request x b ''GET'' ''/fapi/v1/order'' (Some p) w1))"

definition cancel_order ::
  "ext \<Rightarrow> bot \<Rightarrow> string \<Rightarrow> int option \<Rightarrow> string option \<Rightarrow> world \<Rightarrow> (exn + pyval) \<times> world" where
  \<comment> \<open>\<^verbatim>\<open>BasicBot.cancel_order\<close>\<close>
  "cancel_order x b symbol order_id orig_client_order_id w =
     (case id_params symbol order_id orig_client_order_id of
        None \<Rightarrow>
          (Inl (ValueError ''Either order_id or orig_client_order_id must be provided''), w)
      | Some params \<Rightarrow>
          (let (p, w1) = alloc params w
           in signed_request x b ''DELETE'' ''/fapi/v1/order'' (Some p) w1))"

section \<open>Test doubles\<close>

text \<open>
  Stand-ins for the collaborators, used to run the client on concrete inputs: an encoder
  that joins \<open>key=value&\<close>, a toy digest, a table for \<^verbatim>\<open>float\<close>, a clock that starts at
  a fixed instant, and a few networks.
\<close>

definition test_urlencode :: "pydict \<Rightarrow> string" where
  "test_urlencode d =
     concat (map (\<lambda>(k, v). k @ ''='' @ (case v of PStr s \<Rightarrow> s | _ \<Rightarrow> ''?'') @ ''&'') d)"

definition test_ext :: "(request list \<Rightarrow> request \<Rightarrow> response option) \<Rightarrow> ext" where
  "test_ext net =
     \<lparr>urlencode = test_urlencode,
      hmac_sha256 = (\<lambda>key msg. [length key, length msg]),
      transport = net,
      py_repr = (\<lambda>v. ''<object>''),
      float_of_str = map_of [(''0.75'', fl (3 / 4)), (''0.5'', fl (1 / 2)), (''0.1'', fl (1 / 10)),
                             (''0.01'', fl (1 / 100)), (''0.001'', fl (1 / 1000))],
      time_ms = (\<lambda>n. 1700000000000 + int n)\<rparr>"

definition test_bot :: bot where
  "test_bot = init_bot ''key'' ''secret'' ''https://testnet.binancefuture.com/'' 5000 10"

definition empty_world :: world where
  "empty_world = \<lparr>heap = [], sent = [], logged = [], ticks = 0\<rparr>"

definition offline :: "request list \<Rightarrow> request \<Rightarrow> response option" where
  "offline history rq = None"

definition replying :: "response \<Rightarrow> request list \<Rightarrow> request \<Rightarrow> response option" where
  "replying r history rq = Some r"


definition exchange :: "response \<Rightarrow> response \<Rightarrow> request list \<Rightarrow> request \<Rightarrow> response option" where
  \<comment> \<open>a network that answers reads with the metadata and everything else with a reply\<close>
  "exchange info reply history rq = (if req_method rq = ''GET'' then Some info else Some reply)"

definition simple_order ::
  "string \<Rightarrow> string \<Rightarrow> string \<Rightarrow> double option \<Rightarrow> double option \<Rightarrow> order_request" where
  \<comment> \<open>a call of \<^verbatim>\<open>place_order\<close> that leaves the keyword arguments at their defaults\<close>
  "simple_order smb sd ty q p =
     \<lparr>o_symbol = smb, o_side = sd, o_type = ty, o_quantity = q, o_price = p,
      o_time_in_force = ''GTC'', o_stop_price = None, o_reduce_only = False,
      o_close_position = False, o_position_side = None\<rparr>"

text \<open>Two error replies of the exchange: one with a message, one without.\<close>

definition invalid_quantity :: response where
  "invalid_quantity =
     \<lparr>resp_status = 400, resp_text = ''{'' @ [CHR 0x22] @ ''msg'' @ [CHR 0x22] @ '':'' @ [CHR 0x22]
                                      @ ''Invalid quantity.'' @ [CHR 0x22] @ ''}'',
      resp_json = Some (PDict [(''msg'', PStr ''Invalid quantity.'')])\<rparr>"

definition error_without_msg :: response where
  "error_without_msg =
     \<lparr>resp_status = 400, resp_text = ''{'' @ [CHR 0x22] @ ''code'' @ [CHR 0x22] @ '':-1121}'',
      resp_json = Some (PDict [(''code'', PInt (- 1121))])\<rparr>"



section \<open>Dictionaries: keys and lookups after an update\<close>

lemma has_key_Nil: "has_key [] k = False"
  by (simp add: has_key_def)

lemma has_key_Cons: "has_key (kv # d) k = (k = fst kv \<or> has_key d k)"
  by (simp add: has_key_def)

lemma has_key_append: "has_key (d @ e) k = (has_key d k \<or> has_key e k)"
  by (simp add: has_key_def)

lemma has_key_mem: "has_key d k = (\<exists>kv\<in>set d. fst kv = k)"
  by (induction d) (auto simp: has_key_Nil has_key_Cons)

lemma not_has_key_map_of: "\<not> has_key d k \<Longrightarrow> map_of d k = None"
  by (simp add: has_key_def map_of_eq_None_iff)

lemma has_key_map_of: "has_key d k \<Longrightarrow> map_of d k \<noteq> None"
  by (simp add: has_key_def map_of_eq_None_iff)

lemma map_fst_replace:
  "map fst (map (\<lambda>(k', v'). if k' = k then (k', v) else (k', v')) d) = map fst d"
  by (induction d) auto

lemma map_fst_dict_set:
  "map fst (dict_set d k v) = (if has_key d k then map fst d else map fst d @ [k])"
  using map_fst_replace [of k v d] by (simp add: dict_set_def)

lemma map_fst_setdefault:
  "map fst (setdefault d k v) = (if has_key d k then map fst d else map fst d @ [k])"
  by (simp add: setdefault_def)

lemma map_of_replace:
  "map_of (map (\<lambda>(k', v'). if k' = k then (k', v) else (k', v')) d) k' =
     (if k' = k then (if has_key d k then Some v else None) else map_of d k')"
  by (induction d) (auto simp: has_key_Nil has_key_Cons)

lemma map_of_dict_set:
  "map_of (dict_set d k v) k' = (if k' = k then Some v else map_of d k')"
proof (cases "has_key d k")
  case True
  then show ?thesis
    by (simp add: dict_set_def map_of_replace)
next
  case False
  then show ?thesis
    using not_has_key_map_of [OF False]
    by (simp add: dict_set_def map_add_def split: option.split)
qed

lemma map_of_setdefault:
  "map_of (setdefault d k v) k' = (if k' = k \<and> \<not> has_key d k then Some v else map_of d k')"
proof (cases "has_key d k")
  case True
  then show ?thesis
    by (simp add: setdefault_def)
next
  case False
  then show ?thesis
    using not_has_key_map_of [OF False]
    by (simp add: setdefault_def map_add_def split: option.split)
qed

lemma count_key:
  "distinct (map fst d) \<Longrightarrow> has_key d k \<Longrightarrow> length (filter (\<lambda>kv. fst kv = k) d) = 1"
proof (induction d)
  case Nil
  then show ?case by (simp add: has_key_Nil)
next
  case (Cons a d)
  show ?case
  proof (cases "fst a = k")
    case True
    then have "\<not> has_key d k"
      using Cons.prems(1) by (simp add: has_key_def)
    then have "filter (\<lambda>kv. fst kv = k) d = []"
      by (simp add: filter_empty_conv has_key_mem)
    then show ?thesis using True by simp
  next
    case False
    then show ?thesis using Cons by (simp add: has_key_Cons)
  qed
qed

lemma keys_prepared:
  "map fst (dict_set (setdefault P ''recvWindow'' rw) ''timestamp'' ts) =
     map fst P @ filter (\<lambda>k. \<not> has_key P k) [''recvWindow'', ''timestamp'']"
  by (simp add: map_fst_dict_set map_fst_setdefault setdefault_def has_key_append has_key_Cons has_key_Nil)

section \<open>Properties of the binary floating point\<close>

lemma pow2_powi: "pow2 e = 2 powi e"
  by (simp add: pow2_def power_int_def field_simps)

lemma pow2_pos: "0 < pow2 e"
  by (simp add: pow2_powi)

lemma pow2_add: "pow2 (a + b) = pow2 a * pow2 b"
  by (simp add: pow2_powi power_int_add)

lemma pow2_mono: "a \<le> b \<Longrightarrow> pow2 a \<le> pow2 b"
  by (simp add: pow2_powi power_int_increasing)

lemma pow2_less_imp: "pow2 a < pow2 b \<Longrightarrow> a < b"
  using pow2_mono [of b a] by (cases "a < b") auto

lemma pow2_nat: "pow2 (int n) = 2 ^ n"
  by (simp add: pow2_def)

lemma pow2_numeral: "pow2 (numeral k) = 2 ^ numeral k" "pow2 (- numeral k) = 1 / 2 ^ numeral k"
  "pow2 0 = 1" "pow2 1 = 2"
  by (simp_all add: pow2_def)

lemma pow2_diff: "pow2 (a - b) = pow2 a / pow2 b"
  by (simp add: pow2_powi power_int_diff)

lemma bitlen_pow2_bounds:
  assumes "0 < a"
  shows "pow2 (bitlen a - 1) \<le> of_int a" and "of_int a < pow2 (bitlen a)"
proof -
  have pos: "1 \<le> bitlen a"
    using assms by (auto simp: bitlen_alt_def)
  have b: "2 ^ nat (bitlen a - 1) \<le> a" "a < 2 ^ nat (bitlen a)"
    using bitlen_bounds [OF assms] by auto
  have "pow2 (bitlen a - 1) = of_int (2 ^ nat (bitlen a - 1))"
    using pos by (simp add: pow2_def)
  also have "\<dots> \<le> of_int a"
    using b(1) by (simp only: of_int_le_iff)
  finally show "pow2 (bitlen a - 1) \<le> of_int a" .
  have "(of_int a :: rat) < of_int (2 ^ nat (bitlen a))"
    using b(2) by (simp only: of_int_less_iff)
  also have "\<dots> = pow2 (bitlen a)"
    using pos by (simp add: pow2_def)
  finally show "of_int a < pow2 (bitlen a)" .
qed

lemma ilog2_bounds:
  assumes "0 < q"
  shows "pow2 (ilog2 q) \<le> q \<and> q < pow2 (ilog2 q + 1)"
proof -
  obtain a b where ab: "quotient_of q = (a, b)"
    by (cases "quotient_of q")
  have bpos: "0 < b"
    using ab by (rule quotient_of_denom_pos)
  have q: "q = of_int a / of_int b"
    using ab by (rule quotient_of_div)
  have apos: "0 < a"
    using assms bpos q by (simp add: zero_less_divide_iff)
  define k where "k = bitlen a - bitlen b"
  note A = bitlen_pow2_bounds [OF apos]
  note B = bitlen_pow2_bounds [OF bpos]
  have bq: "(0::rat) < of_int b"
    using bpos by simp
  have upper: "q < pow2 (k + 1)"
  proof -
    have "of_int a < pow2 (bitlen a)"
      by (rule A(2))
    also have "\<dots> = pow2 (k + 1) * pow2 (bitlen b - 1)"
      by (simp add: k_def pow2_add [symmetric])
    also have "\<dots> \<le> pow2 (k + 1) * of_int b"
      using B(1) pow2_pos [of "k + 1"] by (simp add: mult_left_mono)
    finally show ?thesis
      using bq by (simp add: q pos_divide_less_eq)
  qed
  have lower: "pow2 (k - 1) < q"
  proof -
    have "pow2 (k - 1) * of_int b < pow2 (k - 1) * pow2 (bitlen b)"
      using B(2) pow2_pos [of "k - 1"] by (simp add: mult_strict_left_mono)
    also have "\<dots> = pow2 (bitlen a - 1)"
      by (simp add: k_def pow2_add [symmetric])
    also have "\<dots> \<le> of_int a"
      by (rule A(1))
    finally show ?thesis
      using bq by (simp add: q pos_less_divide_eq)
  qed
  show ?thesis
  proof (cases "pow2 k \<le> q")
    case True
    then have "ilog2 q = k"
      by (simp add: ilog2_def ab k_def)
    then show ?thesis
      using True upper by simp
  next
    case False
    then have "ilog2 q = k - 1"
      by (simp add: ilog2_def ab k_def)
    then show ?thesis
      using False lower by simp
  qed
qed

lemma py_round_of_int: "py_round (of_int n) = n"
  by (simp add: py_round_def)

lemma py_round_nearest:
  "\<bar>of_int (py_round q) - q\<bar> \<le> 1 / 2 \<and>
   (\<bar>of_int (py_round q) - q\<bar> = 1 / 2 \<longrightarrow> even (py_round q))"
  unfolding py_round_def Let_def
  by (auto simp: not_less abs_if) linarith+

lemma py_round_near:
  assumes "\<bar>x - of_int n\<bar> < 1 / 2"
  shows "py_round x = n"
proof -
  have "\<bar>of_int (py_round x) - x\<bar> \<le> 1 / 2"
    using py_round_nearest [of x] by simp
  then have "\<bar>(of_int (py_round x) :: rat) - of_int n\<bar> < 1"
    using assms by linarith
  then have "\<bar>(of_int (py_round x - n) :: rat)\<bar> < of_int 1"
    by simp
  then have "\<bar>py_round x - n\<bar> < 1"
    by (simp only: of_int_abs [symmetric] of_int_less_iff)
  then show ?thesis
    by simp
qed

lemma fl_normal:
  assumes lo: "pow2 (- 1022) \<le> \<bar>x\<bar>" and hi: "\<bar>x\<bar> < pow2 1023"
  shows "\<exists>y. fl x = Fin y \<and> \<bar>y - x\<bar> \<le> \<bar>x\<bar> / 2 ^ 53"
proof -
  have xpos: "0 < \<bar>x\<bar>"
    using lo pow2_pos [of "- 1022"] by linarith
  then have xnz: "x \<noteq> 0"
    by auto
  define e where "e = ilog2 \<bar>x\<bar>"
  have eb: "pow2 e \<le> \<bar>x\<bar>" "\<bar>x\<bar> < pow2 (e + 1)"
    using ilog2_bounds [OF xpos] by (simp_all add: e_def)
  have "pow2 (- 1022) < pow2 (e + 1)"
    using lo eb(2) by linarith
  then have e_lo: "- 1022 \<le> e"
    using pow2_less_imp [of "- 1022" "e + 1"] by simp
  have "pow2 e < pow2 1023"
    using hi eb(1) by linarith
  then have e_hi: "e \<le> 1022"
    using pow2_less_imp [of e 1023] by simp
  define u where "u = pow2 (e - 52)"
  define r where "r = of_int (py_round (x / u)) * u"
  have upos: "0 < u"
    by (simp add: u_def pow2_pos)
  have u53: "u / 2 = pow2 e / 2 ^ 53"
    by (simp add: u_def pow2_diff pow2_numeral)
  have "r - x = (of_int (py_round (x / u)) - x / u) * u"
    using upos by (simp add: r_def left_diff_distrib)
  then have "\<bar>r - x\<bar> = \<bar>of_int (py_round (x / u)) - x / u\<bar> * u"
    using upos by (simp add: abs_mult)
  also have "\<dots> \<le> (1 / 2) * u"
    using py_round_nearest [of "x / u"] upos by (simp add: mult_right_mono)
  finally have close: "\<bar>r - x\<bar> \<le> pow2 e / 2 ^ 53"
    using u53 by simp
  have "pow2 e / 2 ^ 53 \<le> \<bar>x\<bar> / 2 ^ 53"
    using eb(1) by (rule divide_right_mono) simp
  with close have rel: "\<bar>r - x\<bar> \<le> \<bar>x\<bar> / 2 ^ 53"
    by (rule order_trans)
  have "pow2 e \<le> pow2 1022"
    using e_hi by (rule pow2_mono)
  moreover have "pow2 e / 2 ^ 53 \<le> pow2 e"
    using pow2_pos [of e] by (simp add: divide_le_eq)
  ultimately have "\<bar>r - x\<bar> \<le> pow2 1022"
    using close by linarith
  then have "\<bar>r\<bar> < pow2 1023 + pow2 1022"
    using hi by linarith
  moreover have "pow2 1023 + pow2 1022 < pow2 1024"
    using pow2_pos [of 1022] pow2_add [of 1022 1] pow2_add [of 1023 1]
    by (simp add: pow2_numeral(4))
  ultimately have fin: "\<not> pow2 1024 \<le> \<bar>r\<bar>"
    by linarith
  have "fl x = Fin r"
    using xnz e_lo fin by (simp add: fl_def Let_def e_def [symmetric] u_def [symmetric] r_def max_def)
  then show ?thesis
    using rel by blast
qed

lemma fl_zero: "fl 0 = Fin 0"
  by (simp add: fl_def)

lemma fl_int:
  assumes "\<bar>n\<bar> \<le> 2 ^ 52"
  shows "fl (of_int n) = Fin (of_int n)"
proof (cases "n = 0")
  case True
  then show ?thesis by (simp add: fl_zero)
next
  case False
  define x :: rat where "x = of_int n"
  have x1: "1 \<le> \<bar>x\<bar>"
    using False by (simp add: x_def flip: of_int_abs)
  have xnz: "x \<noteq> 0"
    using x1 by auto
  have xh: "\<bar>x\<bar> \<le> 2 ^ 52"
  proof -
    have "(of_int \<bar>n\<bar> :: rat) \<le> of_int (2 ^ 52)"
      using assms by (simp only: of_int_le_iff)
    then show ?thesis by (simp add: x_def)
  qed
  define e where "e = ilog2 \<bar>x\<bar>"
  have eb: "pow2 e \<le> \<bar>x\<bar>" "\<bar>x\<bar> < pow2 (e + 1)"
    using ilog2_bounds [of "\<bar>x\<bar>"] x1 by (simp_all add: e_def)
  have "pow2 0 < pow2 (e + 1)"
    using x1 eb(2) by (simp add: pow2_numeral)
  then have e_lo: "0 \<le> e"
    using pow2_less_imp [of 0 "e + 1"] by simp
  have "pow2 e < pow2 53"
    using xh eb(1) by (simp add: pow2_numeral)
  then have e_hi: "e \<le> 52"
    using pow2_less_imp [of e 53] by simp
  define j where "j = nat (52 - e)"
  define u where "u = pow2 (e - 52)"
  have u_eq: "u = 1 / 2 ^ j"
    using e_hi by (auto simp: u_def j_def pow2_def)
  have quot: "x / u = of_int (n * 2 ^ j)"
    by (simp add: u_eq x_def)
  have restored: "of_int (py_round (x / u)) * u = x"
    unfolding quot py_round_of_int by (simp add: u_eq x_def)
  have fin: "\<not> pow2 1024 \<le> \<bar>x\<bar>"
  proof -
    have "pow2 52 \<le> pow2 1023"
      by (rule pow2_mono) simp
    moreover have "pow2 1023 < pow2 1024"
      using pow2_pos [of 1023] pow2_add [of 1023 1] by (simp add: pow2_numeral(4))
    moreover have "\<bar>x\<bar> \<le> pow2 52"
      using xh by (simp add: pow2_numeral(1))
    ultimately show ?thesis by linarith
  qed
  have "fl x = Fin x"
    using xnz e_lo fin restored
    by (simp add: fl_def Let_def e_def [symmetric] u_def [symmetric] max_def)
  then show ?thesis
    by (simp add: x_def)
qed

lemma py_round_mono:
  assumes "p \<le> q"
  shows "py_round p \<le> py_round q"
proof (cases "\<lfloor>p\<rfloor> = \<lfloor>q\<rfloor>")
  case True
  then show ?thesis
    using assms unfolding py_round_def Let_def by auto
next
  case False
  moreover have "\<lfloor>p\<rfloor> \<le> \<lfloor>q\<rfloor>"
    using assms by (rule floor_mono)
  ultimately have gap: "\<lfloor>p\<rfloor> + 1 \<le> \<lfloor>q\<rfloor>"
    by simp
  have "py_round p \<le> \<lfloor>p\<rfloor> + 1"
    unfolding py_round_def Let_def by auto
  moreover have "\<lfloor>q\<rfloor> \<le> py_round q"
    unfolding py_round_def Let_def by auto
  ultimately show ?thesis
    using gap by linarith
qed

lemma ilog2_unique:
  assumes "0 < q" and "pow2 e \<le> q" and "q < pow2 (e + 1)"
  shows "ilog2 q = e"
proof -
  define i where "i = ilog2 q"
  have ib: "pow2 i \<le> q" "q < pow2 (i + 1)"
    using ilog2_bounds [OF assms(1)] by (simp_all add: i_def)
  have "pow2 i < pow2 (e + 1)"
    using ib(1) assms(3) by linarith
  then have "i < e + 1"
    by (rule pow2_less_imp)
  moreover have "pow2 e < pow2 (i + 1)"
    using ib(2) assms(2) by linarith
  then have "e < i + 1"
    by (rule pow2_less_imp)
  ultimately show ?thesis
    by (simp add: i_def)
qed

lemma fl_eqI:
  assumes "pow2 e \<le> \<bar>q\<bar>" and "\<bar>q\<bar> < pow2 (e + 1)" and "- 1022 \<le> e"
    and "\<bar>q / pow2 (e - 52) - of_int m\<bar> < 1 / 2"
    and "\<bar>of_int m * pow2 (e - 52)\<bar> < pow2 1024"
  shows "fl q = Fin (of_int m * pow2 (e - 52))"
proof -
  have pos: "0 < \<bar>q\<bar>"
    using assms(1) pow2_pos [of e] by linarith
  then have nz: "q \<noteq> 0"
    by auto
  have e: "ilog2 \<bar>q\<bar> = e"
    using pos assms(1) assms(2) by (rule ilog2_unique)
  have m: "py_round (q / pow2 (e - 52)) = m"
    using assms(4) by (rule py_round_near)
  show ?thesis
    using nz assms(3) assms(5) by (simp add: fl_def Let_def e m max_def)
qed

lemma py_round_tie:
  assumes "x = of_int m + 1 / 2 \<or> x = of_int m - 1 / 2" and "even m"
  shows "py_round x = m"
proof -
  have up: "\<lfloor>(of_int m :: rat) + 1 / 2\<rfloor> = m"
    by linarith
  have down: "\<lfloor>(of_int m :: rat) - 1 / 2\<rfloor> = m - 1"
    by linarith
  show ?thesis
    using assms up down by (auto simp: py_round_def Let_def)
qed

lemma fl_eqI_tie:
  assumes "pow2 e \<le> \<bar>q\<bar>" and "\<bar>q\<bar> < pow2 (e + 1)" and "- 1022 \<le> e"
    and "q / pow2 (e - 52) = of_int m + 1 / 2 \<or> q / pow2 (e - 52) = of_int m - 1 / 2"
    and "even m"
    and "\<bar>of_int m * pow2 (e - 52)\<bar> < pow2 1024"
  shows "fl q = Fin (of_int m * pow2 (e - 52))"
proof -
  have pos: "0 < \<bar>q\<bar>"
    using assms(1) pow2_pos [of e] by linarith
  then have nz: "q \<noteq> 0"
    by auto
  have e: "ilog2 \<bar>q\<bar> = e"
    using pos assms(1) assms(2) by (rule ilog2_unique)
  have m: "py_round (q / pow2 (e - 52)) = m"
    using assms(4) assms(5) by (rule py_round_tie)
  show ?thesis
    using nz assms(3) assms(6) by (simp add: fl_def Let_def e m max_def)
qed

lemma fl_overflow:
  assumes "pow2 1024 \<le> q"
  shows "fl q = PInf"
proof -
  have pos: "0 < q"
    using assms pow2_pos [of 1024] by linarith
  define e where "e = ilog2 q"
  have eb: "pow2 e \<le> q" "q < pow2 (e + 1)"
    using ilog2_bounds [OF pos] by (simp_all add: e_def)
  have "pow2 1024 < pow2 (e + 1)"
    using assms eb(2) by linarith
  then have big: "1024 \<le> e"
    using pow2_less_imp [of 1024 "e + 1"] by simp
  define u where "u = pow2 (e - 52)"
  have upos: "0 < u"
    by (simp add: u_def pow2_pos)
  have "pow2 e = pow2 52 * u"
    by (simp add: u_def pow2_add [symmetric])
  then have "of_int (2 ^ 52) \<le> q / u"
    using eb(1) upos by (simp add: pos_le_divide_eq pow2_numeral(1))
  then have "py_round (of_int (2 ^ 52)) \<le> py_round (q / u)"
    by (rule py_round_mono)
  then have "2 ^ 52 \<le> py_round (q / u)"
    by (simp only: py_round_of_int)
  then have "(of_int (2 ^ 52) :: rat) \<le> of_int (py_round (q / u))"
    by (simp only: of_int_le_iff)
  then have "pow2 52 * u \<le> of_int (py_round (q / u)) * u"
    using upos by (simp add: pow2_numeral(1))
  then have "pow2 e \<le> of_int (py_round (q / u)) * u"
    using \<open>pow2 e = pow2 52 * u\<close> by simp
  moreover have "pow2 1024 \<le> pow2 e"
    using big by (rule pow2_mono)
  ultimately have "pow2 1024 \<le> \<bar>of_int (py_round (q / u)) * u\<bar>"
    by linarith
  then show ?thesis
    using pos big by (simp add: fl_def Let_def e_def [symmetric] u_def [symmetric] max_def)
qed

lemma int_to_double_small:
  assumes "\<bar>n\<bar> \<le> 2 ^ 52"
  shows "int_to_double n = Inr (Fin (of_int n))"
  by (simp add: int_to_double_def fl_int [OF assms])

lemma round_step_finite:
  assumes "b \<noteq> 0" and "fl (a / b) = Fin q" and "\<bar>py_round q\<bar> \<le> 2 ^ 52"
  shows "round_step (Fin a) (Fin b) = Inr (fl (of_int (py_round q) * b))"
  using assms
  by (simp add: round_step_def fdiv_def raise_or_def fround_def int_to_double_small)

lemma round_step_idem_finite:
  assumes b: "b \<noteq> 0"
    and range: "n = 0 \<or> (\<bar>n\<bar> \<le> 2 ^ 50 \<and> pow2 (- 1022) \<le> \<bar>of_int n * b\<bar>
                       \<and> \<bar>of_int n * b\<bar> < pow2 1023)"
  shows "\<exists>y. fl (of_int n * b) = Fin y \<and> round_step (Fin y) (Fin b) = Inr (Fin y)"
proof (cases "n = 0")
  case True
  have "round_step (Fin 0) (Fin b) = Inr (Fin 0)"
    using b by (simp add: round_step_def fdiv_def raise_or_def fround_def fl_zero
        py_round_def int_to_double_def)
  then show ?thesis
    using True by (simp add: fl_zero)
next
  case False
  with range have n50: "\<bar>n\<bar> \<le> 2 ^ 50"
    and lo: "pow2 (- 1022) \<le> \<bar>of_int n * b\<bar>" and hi: "\<bar>of_int n * b\<bar> < pow2 1023"
    by auto
  define N :: rat where "N = \<bar>of_int n\<bar>"
  have N1: "1 \<le> N"
    using False by (simp add: N_def flip: of_int_abs)
  have N50: "N \<le> 2 ^ 50"
  proof -
    have "(of_int \<bar>n\<bar> :: rat) \<le> of_int (2 ^ 50)"
      using n50 by (simp only: of_int_le_iff)
    then show ?thesis by (simp add: N_def)
  qed
  obtain y where y: "fl (of_int n * b) = Fin y"
    and ye: "\<bar>y - of_int n * b\<bar> \<le> \<bar>of_int n * b\<bar> / 2 ^ 53"
    using fl_normal [OF lo hi] by blast
  define x where "x = y / b"
  have bpos: "0 < \<bar>b\<bar>"
    using b by simp
  have "x - of_int n = (y - of_int n * b) / b"
    using b by (simp add: x_def diff_divide_distrib)
  then have "\<bar>x - of_int n\<bar> = \<bar>y - of_int n * b\<bar> / \<bar>b\<bar>"
    by (simp add: abs_divide)
  also have "\<dots> \<le> (\<bar>of_int n * b\<bar> / 2 ^ 53) / \<bar>b\<bar>"
    by (rule divide_right_mono [OF ye]) simp
  also have "\<dots> = N / 2 ^ 53"
    using b by (simp add: N_def abs_mult)
  finally have xe: "\<bar>x - of_int n\<bar> \<le> N / 2 ^ 53" .
  define d where "d = N / 2 ^ 53"
  have d4: "d \<le> N / 4"
    unfolding d_def using N1 by (intro divide_left_mono) simp_all
  have d8: "d \<le> 1 / 8"
  proof -
    have "d \<le> 2 ^ 50 / 2 ^ 53"
      unfolding d_def using N50 by (rule divide_right_mono) simp
    then show ?thesis by simp
  qed
  have xd: "\<bar>x - of_int n\<bar> \<le> d"
    using xe by (simp add: d_def)
  have x_ge: "3 / 4 \<le> \<bar>x\<bar>"
    using xd d4 N1 unfolding N_def by linarith
  have x_le: "\<bar>x\<bar> \<le> 2 * N"
    using xd d4 N1 unfolding N_def by linarith
  have x_lo: "pow2 (- 1022) \<le> \<bar>x\<bar>"
  proof -
    have "pow2 (- 1022) \<le> pow2 (- 1)"
      by (rule pow2_mono) simp
    moreover have "pow2 (- 1) = 1 / 2"
      by (simp add: pow2_def)
    ultimately show ?thesis
      using x_ge by linarith
  qed
  have x_hi: "\<bar>x\<bar> < pow2 1023"
  proof -
    have "\<bar>x\<bar> \<le> pow2 51"
      using x_le N50 by (simp add: pow2_numeral(1))
    moreover have "pow2 51 \<le> pow2 1022"
      by (rule pow2_mono) simp
    moreover have "pow2 1022 < pow2 1023"
      using pow2_pos [of 1022] pow2_add [of 1022 1] by (simp add: pow2_numeral(4))
    ultimately show ?thesis by linarith
  qed
  obtain z where z: "fl x = Fin z" and ze: "\<bar>z - x\<bar> \<le> \<bar>x\<bar> / 2 ^ 53"
    using fl_normal [OF x_lo x_hi] by blast
  have "\<bar>x\<bar> / 2 ^ 53 \<le> (2 * N) / 2 ^ 53"
    using x_le by (rule divide_right_mono) simp
  then have "\<bar>z - x\<bar> \<le> 2 * d"
    using ze by (simp add: d_def)
  then have "\<bar>z - of_int n\<bar> < 1 / 2"
    using xd d8 by linarith
  then have "py_round z = n"
    by (rule py_round_near)
  moreover have "\<bar>n\<bar> \<le> 2 ^ 52"
    using n50 by simp
  ultimately have "round_step (Fin y) (Fin b) = Inr (fl (of_int n * b))"
    using round_step_finite [OF b, of y z] z by (simp add: x_def)
  then show ?thesis
    using y by simp
qed

lemma fl_le_pow2:
  assumes "0 \<le> K" and "K \<le> 1023" and "\<bar>x\<bar> \<le> pow2 K"
  shows "\<exists>y. fl x = Fin y \<and> \<bar>y\<bar> \<le> pow2 K"
proof (cases "x = 0")
  case True
  then show ?thesis
    using pow2_pos [of K] by (simp add: fl_zero)
next
  case False
  then have xpos: "0 < \<bar>x\<bar>"
    by simp
  define e where "e = max (ilog2 \<bar>x\<bar>) (- 1022)"
  have "pow2 (ilog2 \<bar>x\<bar>) \<le> \<bar>x\<bar>"
    using ilog2_bounds [OF xpos] by simp
  moreover have "pow2 K < pow2 (K + 1)"
    using pow2_pos [of K] pow2_add [of K 1] by (simp add: pow2_numeral(4))
  ultimately have "pow2 (ilog2 \<bar>x\<bar>) < pow2 (K + 1)"
    using assms(3) by linarith
  then have "ilog2 \<bar>x\<bar> < K + 1"
    by (rule pow2_less_imp)
  then have e_hi: "e \<le> K"
    using assms(1) by (simp add: e_def)
  define u where "u = pow2 (e - 52)"
  define k where "k = (2 :: int) ^ nat (K + 52 - e)"
  have upos: "0 < u"
    by (simp add: u_def pow2_pos)
  have "pow2 (K + 52 - e) * u = pow2 K"
    by (simp add: u_def pow2_add [symmetric])
  moreover have "pow2 (K + 52 - e) = of_int k"
    using e_hi by (simp add: k_def pow2_def)
  ultimately have ku: "of_int k * u = pow2 K"
    by simp
  then have xu: "\<bar>x\<bar> \<le> of_int k * u"
    using assms(3) by simp
  have "x / u \<le> of_int k"
    using xu upos by (simp add: pos_divide_le_eq abs_le_iff)
  then have "py_round (x / u) \<le> py_round (of_int k)"
    by (rule py_round_mono)
  then have le: "py_round (x / u) \<le> k"
    by (simp only: py_round_of_int)
  have "of_int (- k) \<le> x / u"
    using xu upos by (simp add: pos_le_divide_eq abs_le_iff)
  then have "py_round (of_int (- k)) \<le> py_round (x / u)"
    by (rule py_round_mono)
  then have ge: "- k \<le> py_round (x / u)"
    by (simp only: py_round_of_int)
  define r where "r = of_int (py_round (x / u)) * u"
  have "\<bar>py_round (x / u)\<bar> \<le> k"
    using le ge by simp
  then have "(of_int \<bar>py_round (x / u)\<bar> :: rat) \<le> of_int k"
    by (simp only: of_int_le_iff)
  then have "\<bar>of_int (py_round (x / u)) :: rat\<bar> * u \<le> of_int k * u"
    using upos by (simp add: mult_right_mono)
  then have rb: "\<bar>r\<bar> \<le> pow2 K"
    using upos by (simp add: r_def abs_mult ku)
  have fin: "\<not> pow2 1024 \<le> \<bar>r\<bar>"
  proof -
    have "pow2 K \<le> pow2 1023"
      using assms(2) by (rule pow2_mono)
    moreover have "pow2 1023 < pow2 1024"
      using pow2_pos [of 1023] pow2_add [of 1023 1] by (simp add: pow2_numeral(4))
    ultimately show ?thesis
      using rb by linarith
  qed
  have "fl x = Fin r"
    using False fin
    by (simp add: fl_def Let_def e_def [symmetric] u_def [symmetric] r_def)
  then show ?thesis
    using rb by blast
qed


lemma py_round_le:
  assumes "\<bar>q\<bar> \<le> of_int k"
  shows "\<bar>py_round q\<bar> \<le> k"
proof -
  have "q \<le> of_int k" and "of_int (- k) \<le> q"
    using assms by (simp_all add: abs_le_iff)
  then have "py_round q \<le> py_round (of_int k)"
    and "py_round (of_int (- k)) \<le> py_round q"
    by (simp_all only: py_round_mono)
  then have "py_round q \<le> k" and "- k \<le> py_round q"
    by (simp_all only: py_round_of_int)
  then show ?thesis
    by simp
qed


section \<open>Roundings of particular values\<close>

text \<open>
  The values of some decimal literals, and what \<^verbatim>\<open>round_step\<close> and the adjustment of
  \<^verbatim>\<open>place_order\<close> make of them. Each rounding is justified by the exponent and the
  significand of its result.
\<close>

lemma double_0_001: "fl (1 / 1000) = Fin (1152921504606847 / 2 ^ 60)"
  using fl_eqI [of "- 10" "1 / 1000" "4611686018427388"]
  by (simp add: pow2_def)

lemma double_0_01: "fl (1 / 100) = Fin (5764607523034235 / 2 ^ 59)"
  using fl_eqI [of "- 7" "1 / 100" "5764607523034235"]
  by (simp add: pow2_def)






lemma double_0_002: "fl (1 / 500) = Fin (1152921504606847 / 2 ^ 59)"
  using fl_eqI [of "- 9" "1 / 500" "4611686018427388"]
  by (simp add: pow2_def)


lemma double_0_0043: "fl (43 / 10000) = Fin (2478781234904721 / 2 ^ 59)"
  using fl_eqI [of "- 8" "43 / 10000" "4957562469809442"]
  by (simp add: pow2_def)


lemma double_0_027: "fl (27 / 1000) = Fin (7782220156096217 / 2 ^ 58)"
  using fl_eqI [of "- 6" "27 / 1000" "7782220156096217"]
  by (simp add: pow2_def)

lemma double_0_03: "fl (3 / 100) = Fin (1080863910568919 / 2 ^ 55)"
  using fl_eqI [of "- 6" "3 / 100" "8646911284551352"]
  by (simp add: pow2_def)



lemma double_50123_456: "fl (50123456 / 1000) = Fin (6888915337039839 / 2 ^ 37)"
  using fl_eqI [of "15" "50123456 / 1000" "6888915337039839"]
  by (simp add: pow2_def)

lemma double_50123_46: "fl (5012346 / 100) = Fin (6888915886795653 / 2 ^ 37)"
  using fl_eqI [of "15" "5012346 / 100" "6888915886795653"]
  by (simp add: pow2_def)


lemma double_1_7e308: "fl (17 * 10 ^ 307) = Fin (1090267587844881152 * 2 ^ 964)"
  using fl_eqI [of "1023" "17 * 10 ^ 307" "8517715530038134"]
  by (simp add: pow2_def)

lemma double_1e308: "fl (10 ^ 308) = Fin (641333875202871296 * 2 ^ 964)"
  using fl_eqI [of "1023" "10 ^ 308" "5010420900022432"]
  by (simp add: pow2_def)

lemma adjust_0_002:
  "adjust (fl (1 / 1000)) (fl (1 / 1000)) (Some (fl (1 / 500))) = Inr (Some (fl (1 / 500)))"
proof -
  have q: "fl ((1152921504606847 / 2 ^ 59) / (1152921504606847 / 2 ^ 60)) = Fin 2"
    using fl_eqI [of "1" "(1152921504606847 / 2 ^ 59) / (1152921504606847 / 2 ^ 60)" "4503599627370496"]
    by (simp add: pow2_def)
  have n: "py_round 2 = 2"
    using py_round_near [of "2" "2"] by simp
  have p: "fl (of_int 2 * (1152921504606847 / 2 ^ 60)) = Fin (1152921504606847 / 2 ^ 59)"
    using fl_eqI [of "- 9" "of_int 2 * (1152921504606847 / 2 ^ 60)" "4611686018427388"]
    by (simp add: pow2_def)
  have small: "\<bar>py_round 2\<bar> \<le> 2 ^ 52"
    unfolding n by simp
  have nz: "(1152921504606847 / 2 ^ 60 :: rat) \<noteq> 0"
    by simp
  have "round_step (Fin (1152921504606847 / 2 ^ 59)) (Fin (1152921504606847 / 2 ^ 60))
        = Inr (fl (of_int (py_round 2) * (1152921504606847 / 2 ^ 60)))"
    by (rule round_step_finite [OF nz q small])
  then have rs: "round_step (Fin (1152921504606847 / 2 ^ 59)) (Fin (1152921504606847 / 2 ^ 60))
                 = Inr (Fin (1152921504606847 / 2 ^ 59))"
    unfolding n p .
  show ?thesis
    unfolding double_0_001 double_0_002 using rs by (simp add: adjust_def raise_or_def fmax_def)
qed



lemma adjust_50123_456:
  "adjust (fl (1 / 100)) (fl (1 / 100)) (Some (fl (50123456 / 1000))) = Inr (Some (fl (5012346 / 100)))"
proof -
  have q: "fl ((6888915337039839 / 2 ^ 37) / (5764607523034235 / 2 ^ 59)) = Fin (2690982553531187 / 2 ^ 29)"
    using fl_eqI [of "22" "(6888915337039839 / 2 ^ 37) / (5764607523034235 / 2 ^ 59)" "5381965107062374"]
    by (simp add: pow2_def)
  have n: "py_round (2690982553531187 / 2 ^ 29) = 5012346"
    using py_round_near [of "2690982553531187 / 2 ^ 29" "5012346"] by simp
  have p: "fl (of_int 5012346 * (5764607523034235 / 2 ^ 59)) = Fin (6888915886795653 / 2 ^ 37)"
    using fl_eqI [of "15" "of_int 5012346 * (5764607523034235 / 2 ^ 59)" "6888915886795653"]
    by (simp add: pow2_def)
  have small: "\<bar>py_round (2690982553531187 / 2 ^ 29)\<bar> \<le> 2 ^ 52"
    unfolding n by simp
  have nz: "(5764607523034235 / 2 ^ 59 :: rat) \<noteq> 0"
    by simp
  have "round_step (Fin (6888915337039839 / 2 ^ 37)) (Fin (5764607523034235 / 2 ^ 59))
        = Inr (fl (of_int (py_round (2690982553531187 / 2 ^ 29)) * (5764607523034235 / 2 ^ 59)))"
    by (rule round_step_finite [OF nz q small])
  then have rs: "round_step (Fin (6888915337039839 / 2 ^ 37)) (Fin (5764607523034235 / 2 ^ 59))
                 = Inr (Fin (6888915886795653 / 2 ^ 37))"
    unfolding n p .
  show ?thesis
    unfolding double_0_01 double_50123_456 double_50123_46 using rs by (simp add: adjust_def raise_or_def fmax_def)
qed

lemma adjust_below:
  "adjust (fl (1 / 100)) (fl (1 / 100)) (Some (fl (43 / 10000))) = Inr (Some (fl (1 / 100)))"
proof -
  have q: "fl ((2478781234904721 / 2 ^ 59) / (5764607523034235 / 2 ^ 59)) = Fin (7746191359077253 / 2 ^ 54)"
    using fl_eqI [of "- 2" "(2478781234904721 / 2 ^ 59) / (5764607523034235 / 2 ^ 59)" "7746191359077253"]
    by (simp add: pow2_def)
  have n: "py_round (7746191359077253 / 2 ^ 54) = 0"
    using py_round_near [of "7746191359077253 / 2 ^ 54" "0"] by simp
  have p: "fl (of_int 0 * (5764607523034235 / 2 ^ 59)) = Fin 0"
    by (simp add: fl_zero)
  have small: "\<bar>py_round (7746191359077253 / 2 ^ 54)\<bar> \<le> 2 ^ 52"
    unfolding n by simp
  have nz: "(5764607523034235 / 2 ^ 59 :: rat) \<noteq> 0"
    by simp
  have "round_step (Fin (2478781234904721 / 2 ^ 59)) (Fin (5764607523034235 / 2 ^ 59))
        = Inr (fl (of_int (py_round (7746191359077253 / 2 ^ 54)) * (5764607523034235 / 2 ^ 59)))"
    by (rule round_step_finite [OF nz q small])
  then have rs: "round_step (Fin (2478781234904721 / 2 ^ 59)) (Fin (5764607523034235 / 2 ^ 59))
                 = Inr (Fin 0)"
    unfolding n p .
  show ?thesis
    unfolding double_0_0043 double_0_01 using rs by (simp add: adjust_def raise_or_def fmax_def)
qed





lemma round_step_0_027:
  "round_step (fl (27 / 1000)) (fl (1 / 100)) = Inr (fl (3 / 100))"
proof -
  have q: "fl ((7782220156096217 / 2 ^ 58) / (5764607523034235 / 2 ^ 59)) = Fin (6079859496950169 / 2 ^ 51)"
    using fl_eqI [of "1" "(7782220156096217 / 2 ^ 58) / (5764607523034235 / 2 ^ 59)" "6079859496950169"]
    by (simp add: pow2_def)
  have n: "py_round (6079859496950169 / 2 ^ 51) = 3"
    using py_round_near [of "6079859496950169 / 2 ^ 51" "3"] by simp
  have p: "fl (of_int 3 * (5764607523034235 / 2 ^ 59)) = Fin (1080863910568919 / 2 ^ 55)"
    using fl_eqI_tie [of "- 6" "of_int 3 * (5764607523034235 / 2 ^ 59)" "8646911284551352"]
    by (simp add: pow2_def)
  have small: "\<bar>py_round (6079859496950169 / 2 ^ 51)\<bar> \<le> 2 ^ 52"
    unfolding n by simp
  have nz: "(5764607523034235 / 2 ^ 59 :: rat) \<noteq> 0"
    by simp
  have "round_step (Fin (7782220156096217 / 2 ^ 58)) (Fin (5764607523034235 / 2 ^ 59))
        = Inr (fl (of_int (py_round (6079859496950169 / 2 ^ 51)) * (5764607523034235 / 2 ^ 59)))"
    by (rule round_step_finite [OF nz q small])
  then have rs: "round_step (Fin (7782220156096217 / 2 ^ 58)) (Fin (5764607523034235 / 2 ^ 59))
                 = Inr (Fin (1080863910568919 / 2 ^ 55))"
    unfolding n p .
  show ?thesis
    unfolding double_0_01 double_0_027 double_0_03 by (rule rs)
qed



lemma round_step_1_7e308:
  "round_step (fl (17 * 10 ^ 307)) (fl (10 ^ 308)) = Inr (PInf)"
proof -
  have q: "fl ((1090267587844881152 * 2 ^ 964) / (641333875202871296 * 2 ^ 964)) = Fin (7656119366529843 / 2 ^ 52)"
    using fl_eqI [of "0" "(1090267587844881152 * 2 ^ 964) / (641333875202871296 * 2 ^ 964)" "7656119366529843"]
    by (simp add: pow2_def)
  have n: "py_round (7656119366529843 / 2 ^ 52) = 2"
    using py_round_near [of "7656119366529843 / 2 ^ 52" "2"] by simp
  have p: "fl (of_int 2 * (641333875202871296 * 2 ^ 964)) = PInf"
    by (rule fl_overflow) (simp add: pow2_def)
  have small: "\<bar>py_round (7656119366529843 / 2 ^ 52)\<bar> \<le> 2 ^ 52"
    unfolding n by simp
  have nz: "(641333875202871296 * 2 ^ 964 :: rat) \<noteq> 0"
    by simp
  have "round_step (Fin (1090267587844881152 * 2 ^ 964)) (Fin (641333875202871296 * 2 ^ 964))
        = Inr (fl (of_int (py_round (7656119366529843 / 2 ^ 52)) * (641333875202871296 * 2 ^ 964)))"
    by (rule round_step_finite [OF nz q small])
  then have rs: "round_step (Fin (1090267587844881152 * 2 ^ 964)) (Fin (641333875202871296 * 2 ^ 964))
                 = Inr (PInf)"
    unfolding n p .
  show ?thesis
    unfolding double_1_7e308 double_1e308 by (rule rs)
qed

section \<open>The shape of a signed round trip\<close>

lemma hexdigest_chars: "set (hexdigest bs) \<subseteq> set ''0123456789abcdef''"
proof -
  have "''0123456789abcdef'' ! (n mod 16) \<in> set ''0123456789abcdef''" for n :: nat
    by (rule nth_mem) simp
  then show ?thesis
    unfolding hexdigest_def by (induction bs) auto
qed

lemma hexdigest_length: "length (hexdigest bs) = 2 * length bs"
  unfolding hexdigest_def by (induction bs) auto

lemma sign_fst:
  "fst (sign x b data w) = hexdigest (hmac_sha256 x (api_secret b) (urlencode x data))"
  by (simp add: sign_def Let_def)

lemma signed_params_append:
  assumes "\<not> has_key P ''signature''"
  shows "signed_params x b t P =
           dict_set (setdefault P ''recvWindow'' (PInt (recv_window b))) ''timestamp'' (PInt t)
           @ [(''signature'', PStr (fst (sign x b
                (dict_set (setdefault P ''recvWindow'' (PInt (recv_window b)))
                   ''timestamp'' (PInt t)) w)))]"
proof -
  let ?Q = "dict_set (setdefault P ''recvWindow'' (PInt (recv_window b))) ''timestamp'' (PInt t)"
  have "set (map fst ?Q) \<subseteq> set (map fst P) \<union> {''recvWindow'', ''timestamp''}"
    by (auto simp: map_fst_dict_set map_fst_setdefault split: if_splits)
  then have "\<not> has_key ?Q ''signature''"
    using assms unfolding has_key_def by auto
  then show ?thesis
    by (simp add: signed_params_def Let_def dict_set_def sign_fst)
qed

lemma signed_request_unfold:
  "signed_request x b meth path payload w =
     (let P = (case payload of None \<Rightarrow> [] | Some p \<Rightarrow> heap w ! p);
          fp = signed_params x b (time_ms x (ticks w)) P;
          w7 = w\<lparr>heap := heap w @ [fp],
                 logged := logged w @ [(DEBUG, ''Signing query''), (INFO, ''REQUEST'')],
                 ticks := Suc (ticks w)\<rparr>
      in if upper meth = ''GET'' \<or> upper meth = ''POST'' \<or> upper meth = ''DELETE'' then
           (let rq = \<lparr>req_method = upper meth, req_url = base_url b @ path, req_params = fp\<rparr>;
                w8 = w7\<lparr>sent := sent w @ [rq]\<rparr>
            in case transport x (sent w) rq of
                 None \<Rightarrow> (Inl RequestException,
                           log_msg ERROR ''Network error during API request'' w8)
               | Some r \<Rightarrow> (decode_response x r, log_msg INFO ''RESPONSE'' w8))
         else (Inl (ValueError ''Unsupported HTTP method''), w7))"
proof -
  have copy: "(case payload of
                 None \<Rightarrow> alloc [] w
               | Some p \<Rightarrow> if heap w ! p \<noteq> [] then alloc (heap w ! p) w else alloc [] w)
              = alloc (case payload of None \<Rightarrow> [] | Some p \<Rightarrow> heap w ! p) w"
    by (simp split: option.split)
  show ?thesis
    unfolding signed_request_def copy
    by (simp add: signed_params_def alloc_def heap_map_def now_ms_def
        sign_def log_msg_def send_def Let_def split: option.split)
qed

lemma upper_verbs:
  "upper ''GET'' = ''GET''" "upper ''POST'' = ''POST''" "upper ''DELETE'' = ''DELETE''"
  by (simp_all add: upper_def upper_char_def)

lemma signed_request_world:
  assumes "upper meth = ''GET'' \<or> upper meth = ''POST'' \<or> upper meth = ''DELETE''"
  shows "sent (snd (signed_request x b meth path (Some p) w)) =
           sent w @ [signed_call x b (upper meth) path (time_ms x (ticks w)) (heap w ! p)]"
    and "heap (snd (signed_request x b meth path (Some p) w)) =
           heap w @ [signed_params x b (time_ms x (ticks w)) (heap w ! p)]"
    and "ticks (snd (signed_request x b meth path (Some p) w)) = Suc (ticks w)"
    and "take (length (logged w)) (logged (snd (signed_request x b meth path (Some p) w)))
           = logged w"
    and "fst (signed_request x b meth path (Some p) w) =
           (case transport x (sent w) (signed_call x b (upper meth) path (time_ms x (ticks w)) (heap w ! p)) of
              None \<Rightarrow> Inl RequestException
            | Some r \<Rightarrow> decode_response x r)"
  using assms
  by (auto simp: signed_request_unfold signed_call_def Let_def log_msg_def split: option.split)

lemma py_str_str: "py_str x (PStr s) = s"
  by (simp add: py_str_def)

lemma decode_response_cases:
  "decode_response x r =
     (if ok r then Inr (case resp_json r of Some j \<Rightarrow> j | None \<Rightarrow> PStr (resp_text r))
      else Inl (RuntimeError (''API returned error '' @ str_int (resp_status r) @ '': '' @
             (case resp_json r of
                None \<Rightarrow> resp_text r
              | Some (PDict d) \<Rightarrow> (case map_of d ''msg'' of
                                     None \<Rightarrow> ''None'' | Some v \<Rightarrow> py_str x v)
              | Some j \<Rightarrow> py_str x j))))"
  by (auto simp: decode_response_def err_msg_def dict_get_def py_str_def Let_def
      split: option.split pyval.split)

lemma fetch_filters_world:
  "sent (snd (fetch_filters x b s w)) =
     sent w @ [signed_call x b ''GET'' ''/fapi/v1/exchangeInfo'' (time_ms x (ticks w)) []]"
  "ticks (snd (fetch_filters x b s w)) = Suc (ticks w)"
  "take (length (logged w)) (logged (snd (fetch_filters x b s w))) = logged w"
  "take (length (heap w)) (heap (snd (fetch_filters x b s w))) = heap w"
  using signed_request_world [where meth = "''GET''" and x = x and b = b
          and path = "''/fapi/v1/exchangeInfo''" and p = "length (heap w)"
          and w = "w\<lparr>heap := heap w @ [[]]\<rparr>"]
  by (simp_all add: fetch_filters_def alloc_def Let_def upper_verbs split_beta)

lemma fetch_filters_result:
  "fst (fetch_filters x b s w) =
     raise_or (case transport x (sent w) (signed_call x b ''GET'' ''/fapi/v1/exchangeInfo'' (time_ms x (ticks w)) []) of
                 None \<Rightarrow> Inl RequestException
               | Some r \<Rightarrow> decode_response x r)
       (\<lambda>info. raise_or (py_getitem info ''symbols'')
          (\<lambda>syms. raise_or (py_iter syms) (find_symbol x s)))"
  using signed_request_world(5) [where meth = "''GET''" and x = x and b = b
          and path = "''/fapi/v1/exchangeInfo''" and p = "length (heap w)"
          and w = "w\<lparr>heap := heap w @ [[]]\<rparr>"]
  by (simp add: fetch_filters_def alloc_def Let_def upper_verbs split_beta signed_call_def)





lemma place_order_valid:
  assumes "upper (o_side oreq) = ''BUY'' \<or> upper (o_side oreq) = ''SELL''"
    and "upper (o_type oreq) = ''MARKET'' \<or> upper (o_type oreq) = ''LIMIT''
         \<or> upper (o_type oreq) = ''STOP_LIMIT''"
    and "flt = (case fst (fetch_filters x b (upper (o_symbol oreq)) w) of
                  Inr f \<Rightarrow> f | Inl e \<Rightarrow> default_filter)"
    and "adjust (min_qty flt) (step_size flt) (o_quantity oreq) = Inr q'"
    and "adjust (min_price flt) (tick_size flt) (o_price oreq) = Inr p'"
    and "w1 = snd (fetch_filters x b (upper (o_symbol oreq)) w)"
  shows "place_order x b oreq w =
           signed_request x b ''POST'' ''/fapi/v1/order'' (Some (length (heap w1)))
             (w1\<lparr>logged := logged w1
                   @ (case fst (fetch_filters x b (upper (o_symbol oreq)) w) of
                        Inr f \<Rightarrow> [] | Inl e \<Rightarrow> [(WARNING, ''Could not fetch exchange info'')])
                   @ [(INFO, ''Adjusted'')],
                 heap := heap w1 @ [drop_none (build_params (upper (o_symbol oreq))
                                       (upper (o_side oreq)) (upper (o_type oreq)) q' p' oreq)]\<rparr>)"
proof (cases "fst (fetch_filters x b (upper (o_symbol oreq)) w)")
  case (Inl e)
  then show ?thesis
    using assms
    by (auto simp: place_order_def Let_def split_beta alloc_def log_msg_def)
next
  case (Inr f)
  then show ?thesis
    using assms
    by (auto simp: place_order_def Let_def split_beta alloc_def log_msg_def)
qed

lemma place_order_dispatch:
  assumes "upper (o_side oreq) = ''BUY'' \<or> upper (o_side oreq) = ''SELL''"
    and "upper (o_type oreq) = ''MARKET'' \<or> upper (o_type oreq) = ''LIMIT''
         \<or> upper (o_type oreq) = ''STOP_LIMIT''"
    and "flt = (case fst (fetch_filters x b (upper (o_symbol oreq)) w) of
                  Inr f \<Rightarrow> f | Inl e \<Rightarrow> default_filter)"
    and "adjust (min_qty flt) (step_size flt) (o_quantity oreq) = Inr q'"
    and "adjust (min_price flt) (tick_size flt) (o_price oreq) = Inr p'"
    and "P = drop_none (build_params (upper (o_symbol oreq)) (upper (o_side oreq))
                          (upper (o_type oreq)) q' p' oreq)"
  shows "sent (snd (place_order x b oreq w)) =
           sent w @ [signed_call x b ''GET'' ''/fapi/v1/exchangeInfo'' (time_ms x (ticks w)) [],
                     signed_call x b ''POST'' ''/fapi/v1/order'' (time_ms x (Suc (ticks w))) P]"
    and "fst (place_order x b oreq w) =
           (case transport x
                   (sent w @ [signed_call x b ''GET'' ''/fapi/v1/exchangeInfo''
                                (time_ms x (ticks w)) []])
                   (signed_call x b ''POST'' ''/fapi/v1/order'' (time_ms x (Suc (ticks w))) P) of
              None \<Rightarrow> Inl RequestException
            | Some r \<Rightarrow> decode_response x r)"
    and "(\<exists>e. fst (fetch_filters x b (upper (o_symbol oreq)) w) = Inl e) \<Longrightarrow>
           (WARNING, ''Could not fetch exchange info'') \<in> set (logged (snd (place_order x b oreq w)))"
proof -
  define w1 where "w1 = snd (fetch_filters x b (upper (o_symbol oreq)) w)"
  define extra where "extra = (case fst (fetch_filters x b (upper (o_symbol oreq)) w) of
                        Inr f \<Rightarrow> [] | Inl e \<Rightarrow> [(WARNING, ''Could not fetch exchange info'')])
                   @ [(INFO, ''Adjusted'')]"
  define w4 where "w4 = w1\<lparr>logged := logged w1 @ extra, heap := heap w1 @ [P]\<rparr>"
  have po: "place_order x b oreq w =
              signed_request x b ''POST'' ''/fapi/v1/order'' (Some (length (heap w1))) w4"
    using place_order_valid [OF assms(1) assms(2) assms(3) assms(4) assms(5) w1_def]
    by (simp add: w4_def extra_def assms(6))
  have verb: "upper ''POST'' = ''GET'' \<or> upper ''POST'' = ''POST'' \<or> upper ''POST'' = ''DELETE''"
    by (simp add: upper_verbs)
  have w4_sent: "sent w4 = sent w @ [signed_call x b ''GET'' ''/fapi/v1/exchangeInfo''
                                       (time_ms x (ticks w)) []]"
    by (simp add: w4_def w1_def fetch_filters_world)
  have w4_ticks: "ticks w4 = Suc (ticks w)"
    by (simp add: w4_def w1_def fetch_filters_world)
  have w4_heap: "heap w4 ! length (heap w1) = P"
    by (simp add: w4_def)
  show "sent (snd (place_order x b oreq w)) =
           sent w @ [signed_call x b ''GET'' ''/fapi/v1/exchangeInfo'' (time_ms x (ticks w)) [],
                     signed_call x b ''POST'' ''/fapi/v1/order'' (time_ms x (Suc (ticks w))) P]"
    using signed_request_world(1) [OF verb, where x = x and b = b
            and path = "''/fapi/v1/order''" and p = "length (heap w1)" and w = w4]
    by (simp add: po w4_sent w4_ticks w4_heap upper_verbs)
  show "fst (place_order x b oreq w) =
           (case transport x
                   (sent w @ [signed_call x b ''GET'' ''/fapi/v1/exchangeInfo''
                                (time_ms x (ticks w)) []])
                   (signed_call x b ''POST'' ''/fapi/v1/order'' (time_ms x (Suc (ticks w))) P) of
              None \<Rightarrow> Inl RequestException
            | Some r \<Rightarrow> decode_response x r)"
    using signed_request_world(5) [OF verb, where x = x and b = b
            and path = "''/fapi/v1/order''" and p = "length (heap w1)" and w = w4]
    by (simp add: po w4_sent w4_ticks w4_heap upper_verbs)
  show "(WARNING, ''Could not fetch exchange info'') \<in> set (logged (snd (place_order x b oreq w)))"
    if "\<exists>e. fst (fetch_filters x b (upper (o_symbol oreq)) w) = Inl e"
  proof -
    have "(WARNING, ''Could not fetch exchange info'') \<in> set (logged w4)"
      using that by (auto simp: w4_def extra_def)
    moreover have "take (length (logged w4)) (logged (snd (place_order x b oreq w))) = logged w4"
      using signed_request_world(4) [OF verb, where x = x and b = b
            and path = "''/fapi/v1/order''" and p = "length (heap w1)" and w = w4]
      by (simp add: po)
    ultimately show ?thesis
      by (metis in_set_takeD)
  qed
qed


section \<open>The parameters of an order\<close>

lemma dict_set_new: "\<not> has_key d k \<Longrightarrow> dict_set d k v = d @ [(k, v)]"
  by (simp add: dict_set_def)

lemma lower_str_bool: "lower (str_bool c) = (if c then ''true'' else ''false'')"
  by (simp add: str_bool_def lower_def lower_char_def)

lemma build_params_shape:
  "build_params smb sd ty q p oreq =
     [(''symbol'', PStr smb), (''side'', PStr sd), (''quantity'', opt_float q),
      (''reduceOnly'', PStr (if o_reduce_only oreq then ''true'' else ''false'')),
      (''closePosition'', PStr (if o_close_position oreq then ''true'' else ''false''))]
     @ (case o_position_side oreq of
          None \<Rightarrow> [] | Some ps \<Rightarrow> if ps = [] then [] else [(''positionSide'', PStr ps)])
     @ (if ty = ''MARKET'' then [(''type'', PStr ''MARKET'')]
        else if ty = ''LIMIT'' then
          [(''type'', PStr ''LIMIT''), (''price'', opt_float p),
           (''timeInForce'', PStr (o_time_in_force oreq))]
        else if ty = ''STOP_LIMIT'' then
          [(''type'', PStr ''STOP''), (''price'', opt_float p),
           (''stopPrice'', opt_float (o_stop_price oreq)),
           (''timeInForce'', PStr (o_time_in_force oreq))]
        else [])"
proof -
  define base where "base =
     [(''symbol'', PStr smb), (''side'', PStr sd), (''quantity'', opt_float q),
      (''reduceOnly'', PStr (lower (str_bool (o_reduce_only oreq)))),
      (''closePosition'', PStr (lower (str_bool (o_close_position oreq))))]"
  define pos where "pos = (case o_position_side oreq of
          None \<Rightarrow> [] | Some ps \<Rightarrow> if ps = [] then [] else [(''positionSide'', PStr ps)])"
  have keys_base: "map fst base =
      [''symbol'', ''side'', ''quantity'', ''reduceOnly'', ''closePosition'']"
    by (simp add: base_def)
  have keys_pos: "set (map fst pos) \<subseteq> {''positionSide''}"
    by (cases "o_position_side oreq") (auto simp: pos_def)
  have step1: "(case o_position_side oreq of
                  None \<Rightarrow> base
                | Some ps \<Rightarrow> if ps \<noteq> [] then dict_set base ''positionSide'' (PStr ps) else base)
               = base @ pos"
    by (simp add: pos_def dict_set_def has_key_def keys_base split: option.split)
  have fresh: "\<not> has_key (base @ pos) ''type''" "\<not> has_key (base @ pos) ''price''"
    "\<not> has_key (base @ pos) ''stopPrice''" "\<not> has_key (base @ pos) ''timeInForce''"
    using keys_pos by (auto simp: has_key_def keys_base)
  have market: "dict_set (base @ pos) ''type'' v = base @ pos @ [(''type'', v)]" for v
    using fresh(1) by (simp add: dict_set_new)
  have limit: "dict_update (base @ pos) [(''type'', a), (''price'', c), (''timeInForce'', d)]
               = base @ pos @ [(''type'', a), (''price'', c), (''timeInForce'', d)]" for a c d
    using fresh by (simp add: dict_update_def dict_set_def has_key_append has_key_Cons has_key_Nil)
  have stop: "dict_update (base @ pos)
                [(''type'', a), (''price'', c), (''stopPrice'', e), (''timeInForce'', d)]
               = base @ pos @ [(''type'', a), (''price'', c), (''stopPrice'', e),
                               (''timeInForce'', d)]" for a c d e
    using fresh by (simp add: dict_update_def dict_set_def has_key_append has_key_Cons has_key_Nil)
  have "build_params smb sd ty q p oreq =
          (if ty = ''MARKET'' then dict_set (base @ pos) ''type'' (PStr ''MARKET'')
           else if ty = ''LIMIT'' then
             dict_update (base @ pos) [(''type'', PStr ''LIMIT''), (''price'', opt_float p),
                               (''timeInForce'', PStr (o_time_in_force oreq))]
           else if ty = ''STOP_LIMIT'' then
             dict_update (base @ pos) [(''type'', PStr ''STOP''), (''price'', opt_float p),
                               (''stopPrice'', opt_float (o_stop_price oreq)),
                               (''timeInForce'', PStr (o_time_in_force oreq))]
           else base @ pos)"
    unfolding build_params_def Let_def base_def [symmetric] step1 ..
  then show ?thesis
    unfolding market limit stop
    by (simp add: base_def pos_def lower_str_bool)
qed

lemma default_filter_fields:
  "min_qty default_filter = fl (1 / 1000)" "step_size default_filter = fl (1 / 1000)"
  "min_price default_filter = fl (1 / 100)" "tick_size default_filter = fl (1 / 100)"
  by (simp_all add: default_filter_def)

lemma fetch_offline:
  "fst (fetch_filters (test_ext offline) b s w) = Inl RequestException"
  by (simp add: fetch_filters_result test_ext_def offline_def raise_or_def)

text \<open>
  C4: for an order that passes validation, the mapping that \<^verbatim>\<open>place_order\<close> builds holds
  \<^verbatim>\<open>symbol\<close>, \<^verbatim>\<open>side\<close>, \<^verbatim>\<open>quantity\<close>, \<^verbatim>\<open>reduceOnly\<close> and \<^verbatim>\<open>closePosition\<close> (the booleans as
  the texts \<^verbatim>\<open>true\<close> and \<^verbatim>\<open>false\<close>), then \<^verbatim>\<open>positionSide\<close> only when a non-empty one was
  given, then for MARKET just the type, for LIMIT the type, \<^verbatim>\<open>price\<close> and \<^verbatim>\<open>timeInForce\<close>,
  and for STOP_LIMIT the type \<^verbatim>\<open>STOP\<close>, \<^verbatim>\<open>price\<close>, \<^verbatim>\<open>stopPrice\<close> and \<^verbatim>\<open>timeInForce\<close>. The
  entries whose value is \<^verbatim>\<open>None\<close> are removed, and only those (a zero stays), before the
  mapping is signed and sent as the second HTTP call.
\<close>

theorem order_parameters:
  assumes "upper (o_side oreq) = ''BUY'' \<or> upper (o_side oreq) = ''SELL''"
    and "upper (o_type oreq) = ''MARKET'' \<or> upper (o_type oreq) = ''LIMIT''
         \<or> upper (o_type oreq) = ''STOP_LIMIT''"
    and "flt = (case fst (fetch_filters x b (upper (o_symbol oreq)) w) of
                  Inr f \<Rightarrow> f | Inl e \<Rightarrow> default_filter)"
    and "adjust (min_qty flt) (step_size flt) (o_quantity oreq) = Inr q'"
    and "adjust (min_price flt) (tick_size flt) (o_price oreq) = Inr p'"
  shows "build_params (upper (o_symbol oreq)) (upper (o_side oreq)) (upper (o_type oreq))
           q' p' oreq =
           [(''symbol'', PStr (upper (o_symbol oreq))), (''side'', PStr (upper (o_side oreq))),
            (''quantity'', opt_float q'),
            (''reduceOnly'', PStr (if o_reduce_only oreq then ''true'' else ''false'')),
            (''closePosition'', PStr (if o_close_position oreq then ''true'' else ''false''))]
           @ (case o_position_side oreq of
                None \<Rightarrow> [] | Some ps \<Rightarrow> if ps = [] then [] else [(''positionSide'', PStr ps)])
           @ (if upper (o_type oreq) = ''MARKET'' then [(''type'', PStr ''MARKET'')]
              else if upper (o_type oreq) = ''LIMIT'' then
                [(''type'', PStr ''LIMIT''), (''price'', opt_float p'),
                 (''timeInForce'', PStr (o_time_in_force oreq))]
              else
                [(''type'', PStr ''STOP''), (''price'', opt_float p'),
                 (''stopPrice'', opt_float (o_stop_price oreq)),
                 (''timeInForce'', PStr (o_time_in_force oreq))]) \<and>
         sent (snd (place_order x b oreq w)) =
           sent w @ [signed_call x b ''GET'' ''/fapi/v1/exchangeInfo'' (time_ms x (ticks w)) [],
                     signed_call x b ''POST'' ''/fapi/v1/order'' (time_ms x (Suc (ticks w)))
                       (filter (\<lambda>kv. snd kv \<noteq> PNone)
                          (build_params (upper (o_symbol oreq)) (upper (o_side oreq))
                             (upper (o_type oreq)) q' p' oreq))] \<and>
         opt_float None = PNone \<and> opt_float (Some (Fin 0)) = PFloat (Fin 0)"
proof -
  have dn: "drop_none d = filter (\<lambda>kv. snd kv \<noteq> PNone) d" for d
    by (simp add: drop_none_def split_def)
  have shape: "build_params (upper (o_symbol oreq)) (upper (o_side oreq)) (upper (o_type oreq))
           q' p' oreq =
           [(''symbol'', PStr (upper (o_symbol oreq))), (''side'', PStr (upper (o_side oreq))),
            (''quantity'', opt_float q'),
            (''reduceOnly'', PStr (if o_reduce_only oreq then ''true'' else ''false'')),
            (''closePosition'', PStr (if o_close_position oreq then ''true'' else ''false''))]
           @ (case o_position_side oreq of
                None \<Rightarrow> [] | Some ps \<Rightarrow> if ps = [] then [] else [(''positionSide'', PStr ps)])
           @ (if upper (o_type oreq) = ''MARKET'' then [(''type'', PStr ''MARKET'')]
              else if upper (o_type oreq) = ''LIMIT'' then
                [(''type'', PStr ''LIMIT''), (''price'', opt_float p'),
                 (''timeInForce'', PStr (o_time_in_force oreq))]
              else
                [(''type'', PStr ''STOP''), (''price'', opt_float p'),
                 (''stopPrice'', opt_float (o_stop_price oreq)),
                 (''timeInForce'', PStr (o_time_in_force oreq))])"
    using assms(2) by (auto simp: build_params_shape)
  have disp: "sent (snd (place_order x b oreq w)) =
           sent w @ [signed_call x b ''GET'' ''/fapi/v1/exchangeInfo'' (time_ms x (ticks w)) [],
                     signed_call x b ''POST'' ''/fapi/v1/order'' (time_ms x (Suc (ticks w)))
                       (filter (\<lambda>kv. snd kv \<noteq> PNone)
                          (build_params (upper (o_symbol oreq)) (upper (o_side oreq))
                             (upper (o_type oreq)) q' p' oreq))]"
    using place_order_dispatch(1) [OF assms(1) assms(2) assms(3) assms(4) assms(5) refl]
    by (simp only: dn)
  show ?thesis
    using shape disp by (simp add: opt_float_def)
qed

theorem order_parameters_witness:
  "upper ''buy'' = ''BUY'' \<and> upper ''limit'' = ''LIMIT'' \<and>
   fst (fetch_filters (test_ext offline) test_bot ''BTCUSDT'' empty_world) = Inl RequestException \<and>
   adjust (fl (1 / 1000)) (fl (1 / 1000)) (Some (fl (1 / 500))) = Inr (Some (fl (1 / 500))) \<and>
   adjust (fl (1 / 100)) (fl (1 / 100)) (Some (fl (50123456 / 1000))) = Inr (Some (fl (5012346 / 100))) \<and>
   map req_params (sent (snd (place_order (test_ext offline) test_bot
       (simple_order ''btcusdt'' ''buy'' ''limit'' (Some (fl (1 / 500))) (Some (fl (50123456 / 1000))))
       empty_world))) =
     [[(''recvWindow'', PInt 5000), (''timestamp'', PInt 1700000000000),
       (''signature'', PStr ''0619'')],
      [(''symbol'', PStr ''BTCUSDT''), (''side'', PStr ''BUY''),
       (''quantity'', PFloat (fl (1 / 500))), (''reduceOnly'', PStr ''false''),
       (''closePosition'', PStr ''false''), (''type'', PStr ''LIMIT''),
       (''price'', PFloat (fl (5012346 / 100))), (''timeInForce'', PStr ''GTC''),
       (''recvWindow'', PInt 5000), (''timestamp'', PInt 1700000000001),
       (''signature'', PStr ''0684'')]]"
proof -
  let ?O = "simple_order ''btcusdt'' ''buy'' ''limit'' (Some (fl (1 / 500))) (Some (fl (50123456 / 1000)))"
  let ?x = "test_ext offline"
  have up: "upper ''buy'' = ''BUY''" "upper ''limit'' = ''LIMIT''" "upper ''btcusdt'' = ''BTCUSDT''"
    by (simp_all add: upper_def upper_char_def)
  have q: "adjust (fl (1 / 1000)) (fl (1 / 1000)) (Some (fl (1 / 500))) = Inr (Some (fl (1 / 500)))"
    by (rule adjust_0_002)
  have p: "adjust (fl (1 / 100)) (fl (1 / 100)) (Some (fl (50123456 / 1000))) = Inr (Some (fl (5012346 / 100)))"
    by (rule adjust_50123_456)
  have fetched: "fst (fetch_filters ?x test_bot ''BTCUSDT'' empty_world) = Inl RequestException"
    by (rule fetch_offline)
  have h1: "upper (o_side ?O) = ''BUY'' \<or> upper (o_side ?O) = ''SELL''"
    by (simp add: simple_order_def up)
  have h2: "upper (o_type ?O) = ''MARKET'' \<or> upper (o_type ?O) = ''LIMIT''
            \<or> upper (o_type ?O) = ''STOP_LIMIT''"
    by (simp add: simple_order_def up)
  have h3: "default_filter = (case fst (fetch_filters ?x test_bot (upper (o_symbol ?O)) empty_world) of
                  Inr f \<Rightarrow> f | Inl e \<Rightarrow> default_filter)"
    by (simp add: simple_order_def up fetched)
  have h4: "adjust (min_qty default_filter) (step_size default_filter) (o_quantity ?O)
            = Inr (Some (fl (1 / 500)))"
    using q by (simp add: simple_order_def default_filter_fields)
  have h5: "adjust (min_price default_filter) (tick_size default_filter) (o_price ?O)
            = Inr (Some (fl (5012346 / 100)))"
    using p by (simp add: simple_order_def default_filter_fields)
  have params: "build_params ''BTCUSDT'' ''BUY'' ''LIMIT'' (Some (fl (1 / 500))) (Some (fl (5012346 / 100))) ?O
      = [(''symbol'', PStr ''BTCUSDT''), (''side'', PStr ''BUY''),
         (''quantity'', PFloat (fl (1 / 500))), (''reduceOnly'', PStr ''false''),
         (''closePosition'', PStr ''false''), (''type'', PStr ''LIMIT''),
         (''price'', PFloat (fl (5012346 / 100))), (''timeInForce'', PStr ''GTC'')]"
    by (simp add: build_params_shape simple_order_def opt_float_def)
  have first: "req_params (signed_call ?x test_bot ''GET'' ''/fapi/v1/exchangeInfo''
                 (time_ms ?x (ticks empty_world)) []) =
     [(''recvWindow'', PInt 5000), (''timestamp'', PInt 1700000000000),
      (''signature'', PStr ''0619'')]"
    by (simp add: signed_call_def signed_params_def dict_set_def setdefault_def has_key_def
        test_ext_def test_bot_def init_bot_def test_urlencode_def hexdigest_def empty_world_def
        Let_def)
  have second: "req_params (signed_call ?x test_bot ''POST'' ''/fapi/v1/order''
                 (time_ms ?x (Suc (ticks empty_world)))
       [(''symbol'', PStr ''BTCUSDT''), (''side'', PStr ''BUY''),
         (''quantity'', PFloat (fl (1 / 500))), (''reduceOnly'', PStr ''false''),
         (''closePosition'', PStr ''false''), (''type'', PStr ''LIMIT''),
         (''price'', PFloat (fl (5012346 / 100))), (''timeInForce'', PStr ''GTC'')]) =
      [(''symbol'', PStr ''BTCUSDT''), (''side'', PStr ''BUY''),
       (''quantity'', PFloat (fl (1 / 500))), (''reduceOnly'', PStr ''false''),
       (''closePosition'', PStr ''false''), (''type'', PStr ''LIMIT''),
       (''price'', PFloat (fl (5012346 / 100))), (''timeInForce'', PStr ''GTC''),
       (''recvWindow'', PInt 5000), (''timestamp'', PInt 1700000000001),
       (''signature'', PStr ''0684'')]"
    by (simp add: signed_call_def signed_params_def dict_set_def setdefault_def has_key_def
        test_ext_def test_bot_def init_bot_def test_urlencode_def hexdigest_def empty_world_def
        Let_def)
  have "sent (snd (place_order ?x test_bot ?O empty_world)) =
          sent empty_world @
          [signed_call ?x test_bot ''GET'' ''/fapi/v1/exchangeInfo''
             (time_ms ?x (ticks empty_world)) [],
           signed_call ?x test_bot ''POST'' ''/fapi/v1/order''
             (time_ms ?x (Suc (ticks empty_world)))
             [(''symbol'', PStr ''BTCUSDT''), (''side'', PStr ''BUY''),
              (''quantity'', PFloat (fl (1 / 500))), (''reduceOnly'', PStr ''false''),
              (''closePosition'', PStr ''false''), (''type'', PStr ''LIMIT''),
              (''price'', PFloat (fl (5012346 / 100))), (''timeInForce'', PStr ''GTC'')]]"
    using order_parameters [OF h1 h2 h3 h4 h5] params
    by (simp add: simple_order_def up)
  then have "map req_params (sent (snd (place_order ?x test_bot ?O empty_world))) =
     [[(''recvWindow'', PInt 5000), (''timestamp'', PInt 1700000000000),
       (''signature'', PStr ''0619'')],
      [(''symbol'', PStr ''BTCUSDT''), (''side'', PStr ''BUY''),
       (''quantity'', PFloat (fl (1 / 500))), (''reduceOnly'', PStr ''false''),
       (''closePosition'', PStr ''false''), (''type'', PStr ''LIMIT''),
       (''price'', PFloat (fl (5012346 / 100))), (''timeInForce'', PStr ''GTC''),
       (''recvWindow'', PInt 5000), (''timestamp'', PInt 1700000000001),
       (''signature'', PStr ''0684'')]]"
    using first second by (simp add: empty_world_def)
  then show ?thesis
    using up q p fetched by simp
qed

section \<open>Orders when the instrument rules are not available\<close>



















section \<open>Quantity and price in the order that is sent\<close>









section \<open>Properties of the rounding\<close>

text \<open>
  C8 as stated fails where the product overflows. For the value 1.7e308 and the step
  1e308, both finite, the quotient is about 1.7, its rounding is 2, and twice the step
  is beyond the largest float: \<^verbatim>\<open>round_step\<close> returns infinity. Rounding that result again
  raises \<^verbatim>\<open>OverflowError\<close>, so the second rounding does not return the first result.
\<close>

theorem round_step_idempotent_counterexample:
  "fl (17 * 10 ^ 307) = Fin (1090267587844881152 * 2 ^ 964) \<and>
   fl (10 ^ 308) = Fin (641333875202871296 * 2 ^ 964) \<and>
   round_step (fl (17 * 10 ^ 307)) (fl (10 ^ 308)) = Inr PInf \<and>
   round_step PInf (fl (10 ^ 308)) = Inl OverflowError"
proof -
  have "round_step PInf (Fin (641333875202871296 * 2 ^ 964)) = Inl OverflowError"
    by (simp add: round_step_def fdiv_def fround_def raise_or_def)
  then have "round_step PInf (fl (10 ^ 308)) = Inl OverflowError"
    unfolding double_1e308 .
  then show ?thesis
    using double_1_7e308 double_1e308 round_step_1_7e308 by blast
qed

text \<open>
  C8 (amended): rounding to a step is idempotent in the range where nothing overflows or
  underflows. For a finite value and a step that is a normal number below
  \<open>2\<^sup>9\<^sup>7\<^sup>3\<close> in magnitude, with a quotient of at most \<open>2\<^sup>4\<^sup>9\<close> in magnitude, the
  rounding returns a finite value, and rounding that value again with the same step
  returns it unchanged.
\<close>

theorem round_step_idempotent:
  assumes "pow2 (- 1022) \<le> \<bar>b\<bar>" and "\<bar>b\<bar> < pow2 973" and "\<bar>a / b\<bar> \<le> 2 ^ 49"
  shows "(\<exists>r. round_step (Fin a) (Fin b) = Inr (Fin r) \<and>
              round_step (Fin r) (Fin b) = Inr (Fin r)) \<and>
         raise_or (round_step (Fin a) (Fin b)) (\<lambda>r. round_step r (Fin b))
           = round_step (Fin a) (Fin b)"
proof -
  have bpos: "0 < \<bar>b\<bar>"
    using assms(1) pow2_pos [of "- 1022"] by linarith
  then have b: "b \<noteq> 0"
    by auto
  have "\<bar>a / b\<bar> \<le> pow2 49"
    using assms(3) by (simp add: pow2_numeral(1))
  then obtain q where q: "fl (a / b) = Fin q" and qb: "\<bar>q\<bar> \<le> pow2 49"
    using fl_le_pow2 [of 49 "a / b"] by auto
  define n where "n = py_round q"
  have "\<bar>q\<bar> \<le> of_int (2 ^ 49)"
    using qb by (simp add: pow2_numeral(1))
  then have n49: "\<bar>n\<bar> \<le> 2 ^ 49"
    unfolding n_def by (rule py_round_le)
  then have n52: "\<bar>py_round q\<bar> \<le> 2 ^ 52"
    by (simp add: n_def)
  have first: "round_step (Fin a) (Fin b) = Inr (fl (of_int n * b))"
    unfolding n_def using b q n52 by (rule round_step_finite)
  have range: "n = 0 \<or> (\<bar>n\<bar> \<le> 2 ^ 50 \<and> pow2 (- 1022) \<le> \<bar>of_int n * b\<bar>
                       \<and> \<bar>of_int n * b\<bar> < pow2 1023)"
  proof (cases "n = 0")
    case True
    then show ?thesis by simp
  next
    case False
    define N :: rat where "N = \<bar>of_int n\<bar>"
    have N1: "1 \<le> N"
      using False by (simp add: N_def flip: of_int_abs)
    have N49: "N \<le> pow2 49"
    proof -
      have "(of_int \<bar>n\<bar> :: rat) \<le> of_int (2 ^ 49)"
        using n49 by (simp only: of_int_le_iff)
      then show ?thesis by (simp add: N_def pow2_numeral(1))
    qed
    have prod: "\<bar>of_int n * b\<bar> = N * \<bar>b\<bar>"
      by (simp add: N_def abs_mult)
    have "1 * \<bar>b\<bar> \<le> N * \<bar>b\<bar>"
      using N1 bpos by (intro mult_right_mono) simp_all
    then have lo: "pow2 (- 1022) \<le> \<bar>of_int n * b\<bar>"
      using assms(1) prod by simp
    have "N * \<bar>b\<bar> \<le> pow2 49 * \<bar>b\<bar>"
      using N49 bpos by (intro mult_right_mono) simp_all
    also have "\<dots> < pow2 49 * pow2 973"
      using assms(2) pow2_pos [of 49] by (simp add: mult_strict_left_mono)
    also have "\<dots> = pow2 1022"
      by (simp add: pow2_add [symmetric])
    also have "\<dots> \<le> pow2 1023"
      by (rule pow2_mono) simp
    finally have hi: "\<bar>of_int n * b\<bar> < pow2 1023"
      using prod by simp
    show ?thesis
      using n49 lo hi by simp
  qed
  obtain y where "fl (of_int n * b) = Fin y" and "round_step (Fin y) (Fin b) = Inr (Fin y)"
    using round_step_idem_finite [OF b range] by blast
  then show ?thesis
    using first by (auto simp: raise_or_def)
qed

theorem round_step_idempotent_witness:
  "fl (27 / 1000) = Fin (7782220156096217 / 2 ^ 58) \<and>
   fl (1 / 100) = Fin (5764607523034235 / 2 ^ 59) \<and>
   pow2 (- 1022) \<le> \<bar>5764607523034235 / 2 ^ 59\<bar> \<and>
   \<bar>5764607523034235 / 2 ^ 59\<bar> < pow2 973 \<and>
   \<bar>(7782220156096217 / 2 ^ 58) / (5764607523034235 / 2 ^ 59)\<bar> \<le> (2 ^ 49 :: rat) \<and>
   round_step (fl (27 / 1000)) (fl (1 / 100)) = Inr (fl (3 / 100)) \<and>
   round_step (fl (3 / 100)) (fl (1 / 100)) = Inr (fl (3 / 100))"
proof -
  have lo: "pow2 (- 1022) \<le> \<bar>5764607523034235 / 2 ^ 59\<bar>"
    by (simp add: pow2_def)
  have hi: "\<bar>5764607523034235 / 2 ^ 59\<bar> < pow2 973"
    by (simp add: pow2_def)
  have quot: "\<bar>(7782220156096217 / 2 ^ 58) / (5764607523034235 / 2 ^ 59)\<bar> \<le> (2 ^ 49 :: rat)"
    by simp
  obtain r where
    first: "round_step (Fin (7782220156096217 / 2 ^ 58)) (Fin (5764607523034235 / 2 ^ 59))
            = Inr (Fin r)"
    and again: "round_step (Fin r) (Fin (5764607523034235 / 2 ^ 59)) = Inr (Fin r)"
    using round_step_idempotent [OF lo hi quot] by blast
  have known: "round_step (Fin (7782220156096217 / 2 ^ 58)) (Fin (5764607523034235 / 2 ^ 59))
               = Inr (Fin (1080863910568919 / 2 ^ 55))"
    using round_step_0_027 unfolding double_0_027 double_0_01 double_0_03 .
  have r: "r = 1080863910568919 / 2 ^ 55"
    using first known by simp
  have "round_step (fl (27 / 1000)) (fl (1 / 100)) = Inr (fl (3 / 100))"
    by (rule round_step_0_027)
  moreover have "round_step (fl (3 / 100)) (fl (1 / 100)) = Inr (fl (3 / 100))"
    using again unfolding r double_0_01 double_0_03 .
  ultimately show ?thesis
    using lo hi quot double_0_027 double_0_01 by blast
qed




section \<open>The payload of a signed request\<close>

lemma prepared_distinct:
  assumes "distinct (map fst P)"
  shows "distinct (map fst (dict_set (setdefault P ''recvWindow'' rw) ''timestamp'' ts))"
  using assms by (auto simp: keys_prepared has_key_def)

lemma prepared_no_signature:
  assumes "\<not> has_key P ''signature''"
  shows "\<not> has_key (dict_set (setdefault P ''recvWindow'' rw) ''timestamp'' ts) ''signature''"
  using assms by (auto simp: has_key_def keys_prepared)

lemma prepared_has_timestamp:
  "has_key (dict_set (setdefault P ''recvWindow'' rw) ''timestamp'' ts) ''timestamp''"
  by (auto simp: has_key_def keys_prepared)

lemma count_absent: "\<not> has_key d k \<Longrightarrow> filter (\<lambda>kv. fst kv = k) d = []"
  by (simp add: filter_empty_conv has_key_mem)

text \<open>
  C1: for a payload without a \<^verbatim>\<open>signature\<close> key and a supported method, exactly one HTTP
  call is attempted, and its parameters are the entries of the payload in their order,
  with \<^verbatim>\<open>recvWindow\<close> (the payload's own value, or else the client's default) and
  \<^verbatim>\<open>timestamp\<close> (the current time, replacing a value the payload may carry), followed
  last by \<^verbatim>\<open>signature\<close>, the signature of all the entries before it. \<^verbatim>\<open>timestamp\<close> and
  \<^verbatim>\<open>signature\<close> each occur once. Every dictionary that existed before the call, the
  caller's payload among them, is left as it was.
\<close>

theorem signed_request_payload:
  fixes x :: ext and b :: bot and w :: world and p :: nat
  defines "Q \<equiv> dict_set (setdefault (heap w ! p) ''recvWindow'' (PInt (recv_window b)))
                  ''timestamp'' (PInt (time_ms x (ticks w)))"
  assumes "p < length (heap w)"
    and "\<not> has_key (heap w ! p) ''signature''"
    and "distinct (map fst (heap w ! p))"
    and "upper meth = ''GET'' \<or> upper meth = ''POST'' \<or> upper meth = ''DELETE''"
  shows "sent (snd (signed_request x b meth path (Some p) w)) =
           sent w @ [\<lparr>req_method = upper meth, req_url = base_url b @ path,
                      req_params = Q @ [(''signature'', PStr (fst (sign x b Q w)))]\<rparr>] \<and>
         map fst Q = map fst (heap w ! p)
                     @ filter (\<lambda>k. \<not> has_key (heap w ! p) k) [''recvWindow'', ''timestamp''] \<and>
         map_of Q ''timestamp'' = Some (PInt (time_ms x (ticks w))) \<and>
         map_of Q ''recvWindow'' = Some (case map_of (heap w ! p) ''recvWindow'' of
                                          None \<Rightarrow> PInt (recv_window b) | Some v \<Rightarrow> v) \<and>
         (\<forall>k. k \<noteq> ''timestamp'' \<and> k \<noteq> ''recvWindow'' \<longrightarrow> map_of Q k = map_of (heap w ! p) k) \<and>
         length (filter (\<lambda>kv. fst kv = ''timestamp'')
                   (Q @ [(''signature'', PStr (fst (sign x b Q w)))])) = 1 \<and>
         length (filter (\<lambda>kv. fst kv = ''signature'')
                   (Q @ [(''signature'', PStr (fst (sign x b Q w)))])) = 1 \<and>
         \<not> has_key Q ''signature'' \<and>
         (\<forall>a<length (heap w). heap (snd (signed_request x b meth path (Some p) w)) ! a
                                = heap w ! a)"
proof -
  have nosig: "\<not> has_key Q ''signature''"
    unfolding Q_def using assms(3) by (rule prepared_no_signature)
  have dispatched: "sent (snd (signed_request x b meth path (Some p) w)) =
           sent w @ [\<lparr>req_method = upper meth, req_url = base_url b @ path,
                      req_params = Q @ [(''signature'', PStr (fst (sign x b Q w)))]\<rparr>]"
    using signed_request_world(1) [OF assms(5), of x b path p w]
          signed_params_append [OF assms(3), of x b "time_ms x (ticks w)" w]
    by (simp add: signed_call_def Q_def)
  have keys: "map fst Q = map fst (heap w ! p)
                     @ filter (\<lambda>k. \<not> has_key (heap w ! p) k) [''recvWindow'', ''timestamp'']"
    unfolding Q_def by (rule keys_prepared)
  have ts: "map_of Q ''timestamp'' = Some (PInt (time_ms x (ticks w)))"
    by (simp add: Q_def map_of_dict_set)
  have rw: "map_of Q ''recvWindow'' = Some (case map_of (heap w ! p) ''recvWindow'' of
                                          None \<Rightarrow> PInt (recv_window b) | Some v \<Rightarrow> v)"
  proof (cases "has_key (heap w ! p) ''recvWindow''")
    case True
    then show ?thesis
      using has_key_map_of [OF True]
      by (auto simp: Q_def map_of_dict_set map_of_setdefault)
  next
    case False
    then show ?thesis
      using not_has_key_map_of [OF False]
      by (simp add: Q_def map_of_dict_set map_of_setdefault)
  qed
  have others: "\<forall>k. k \<noteq> ''timestamp'' \<and> k \<noteq> ''recvWindow'' \<longrightarrow> map_of Q k = map_of (heap w ! p) k"
    by (simp add: Q_def map_of_dict_set map_of_setdefault)
  have one_ts: "length (filter (\<lambda>kv. fst kv = ''timestamp'') Q) = 1"
    unfolding Q_def
    by (rule count_key [OF prepared_distinct [OF assms(4)] prepared_has_timestamp])
  have no_sig: "filter (\<lambda>kv. fst kv = ''signature'') Q = []"
    using nosig by (rule count_absent)
  have heap_kept: "\<forall>a<length (heap w). heap (snd (signed_request x b meth path (Some p) w)) ! a
                                = heap w ! a"
    using signed_request_world(2) [OF assms(5), of x b path p w]
    by (simp add: nth_append)
  show ?thesis
    using nosig dispatched keys ts rw others one_ts no_sig heap_kept by simp
qed

theorem signed_request_payload_witness:
  "(0::nat) < length (heap (empty_world\<lparr>heap := [[(''symbol'', PStr ''BTCUSDT'')]]\<rparr>)) \<and>
   \<not> has_key [(''symbol'', PStr ''BTCUSDT'')] ''signature'' \<and>
   upper ''get'' = ''GET'' \<and>
   sent (snd (signed_request (test_ext offline) test_bot ''get'' ''/fapi/v1/order'' (Some 0)
                (empty_world\<lparr>heap := [[(''symbol'', PStr ''BTCUSDT'')]]\<rparr>))) =
     [\<lparr>req_method = ''GET'', req_url = ''https://testnet.binancefuture.com/fapi/v1/order'',
       req_params = [(''symbol'', PStr ''BTCUSDT''), (''recvWindow'', PInt 5000),
                     (''timestamp'', PInt 1700000000000), (''signature'', PStr ''0628'')]\<rparr>] \<and>
   heap (snd (signed_request (test_ext offline) test_bot ''get'' ''/fapi/v1/order'' (Some 0)
                (empty_world\<lparr>heap := [[(''symbol'', PStr ''BTCUSDT'')]]\<rparr>))) ! 0 =
     [(''symbol'', PStr ''BTCUSDT'')]"
  using signed_request_payload [where p = 0
          and w = "empty_world\<lparr>heap := [[(''symbol'', PStr ''BTCUSDT'')]]\<rparr>"
          and meth = "''get''" and x = "test_ext offline" and b = test_bot
          and path = "''/fapi/v1/order''"]
  by (simp add: empty_world_def has_key_def upper_def upper_char_def test_ext_def test_bot_def
      init_bot_def rstrip_slash_def dict_set_def setdefault_def sign_def test_urlencode_def
      hexdigest_def Let_def)

section \<open>Replies of the exchange\<close>

text \<open>
  C6 as stated fails where the decoded body is a mapping without a \<^verbatim>\<open>msg\<close> entry: the
  error then carries the text \<^verbatim>\<open>None\<close>, not the raw body.
\<close>

theorem api_error_raw_body_counterexample:
  "\<not> ok error_without_msg \<and>
   resp_json error_without_msg = Some (PDict [(''code'', PInt (- 1121))]) \<and>
   fst (signed_request (test_ext (replying error_without_msg)) test_bot ''POST''
          ''/fapi/v1/order'' (Some 0) (empty_world\<lparr>heap := [[(''symbol'', PStr ''BTCUSDT'')]]\<rparr>)) =
     Inl (RuntimeError ''API returned error 400: None'') \<and>
   ''API returned error 400: None'' \<noteq> ''API returned error 400: '' @ resp_text error_without_msg"
proof -
  have code: "str_int 400 = ''400''"
    by (simp add: str_int_def str_nat.simps)
  have "fst (signed_request (test_ext (replying error_without_msg)) test_bot ''POST''
          ''/fapi/v1/order'' (Some 0) (empty_world\<lparr>heap := [[(''symbol'', PStr ''BTCUSDT'')]]\<rparr>)) =
        decode_response (test_ext (replying error_without_msg)) error_without_msg"
    by (simp add: signed_request_world(5) upper_verbs test_ext_def replying_def)
  then show ?thesis
    using code
    by (simp add: decode_response_cases error_without_msg_def ok_def)
qed

text \<open>
  C6 (amended): on a 4xx or 5xx status the call raises a \<^verbatim>\<open>RuntimeError\<close> whose message holds
  the status code and then: the \<^verbatim>\<open>msg\<close> entry when the decoded body is a mapping that has
  one, the text \<^verbatim>\<open>None\<close> when it is a mapping without one, the string form of the decoded
  body when it is not a mapping, and the raw body when it cannot be decoded. On any
  other status the decoded body, or the raw text when it cannot be decoded, is returned
  as it is.
\<close>

theorem api_error_message:
  assumes "upper meth = ''GET'' \<or> upper meth = ''POST'' \<or> upper meth = ''DELETE''"
    and "transport x (sent w)
           (signed_call x b (upper meth) path (time_ms x (ticks w)) (heap w ! p)) = Some r"
  shows "fst (signed_request x b meth path (Some p) w) =
           (if ok r then Inr (case resp_json r of Some j \<Rightarrow> j | None \<Rightarrow> PStr (resp_text r))
            else Inl (RuntimeError (''API returned error '' @ str_int (resp_status r) @ '': '' @
                   (case resp_json r of
                      None \<Rightarrow> resp_text r
                    | Some (PDict d) \<Rightarrow> (case map_of d ''msg'' of
                                           None \<Rightarrow> ''None'' | Some v \<Rightarrow> py_str x v)
                    | Some j \<Rightarrow> py_str x j))))"
  using signed_request_world(5) [OF assms(1), of x b path p w] assms(2)
  by (simp add: decode_response_cases)

theorem api_error_message_witness:
  "upper ''POST'' = ''POST'' \<and>
   fst (signed_request (test_ext (replying invalid_quantity)) test_bot ''POST'' ''/fapi/v1/order''
          (Some 0) (empty_world\<lparr>heap := [[(''symbol'', PStr ''BTCUSDT'')]]\<rparr>)) =
     Inl (RuntimeError ''API returned error 400: Invalid quantity.'')"
proof -
  have code: "str_int 400 = ''400''"
    by (simp add: str_int_def str_nat.simps)
  show ?thesis
    using api_error_message [where meth = "''POST''" and x = "test_ext (replying invalid_quantity)"
            and w = "empty_world\<lparr>heap := [[(''symbol'', PStr ''BTCUSDT'')]]\<rparr>"
            and b = test_bot and path = "''/fapi/v1/order''" and p = 0 and r = invalid_quantity]
          code
    by (simp add: upper_verbs test_ext_def replying_def invalid_quantity_def ok_def py_str_def)
qed

section \<open>Signing is a function of the secret and the mapping\<close>

text \<open>
  C9: the signature is the lowercase hexadecimal digest of HMAC-SHA256, keyed with the
  secret, over the query-string encoding of the mapping, in the order of its keys. It
  depends on nothing else: any client with the same secret, in any state of the world,
  signs the same mapping with the same signature. Signing changes nothing but the log.
\<close>

theorem sign_deterministic:
  "fst (sign x b data w) = hexdigest (hmac_sha256 x (api_secret b) (urlencode x data)) \<and>
   fst (sign x (b'\<lparr>api_secret := api_secret b\<rparr>) data w') = fst (sign x b data w) \<and>
   set (fst (sign x b data w)) \<subseteq> set ''0123456789abcdef'' \<and>
   length (fst (sign x b data w)) = 2 * length (hmac_sha256 x (api_secret b) (urlencode x data)) \<and>
   snd (sign x b data w) = log_msg DEBUG ''Signing query'' w"
  using hexdigest_chars hexdigest_length by (simp add: sign_def Let_def)

theorem sign_deterministic_witness:
  "fst (sign (test_ext offline) test_bot [(''symbol'', PStr ''BTCUSDT'')] empty_world) = ''060f'' \<and>
   fst (sign (test_ext offline) test_bot [(''symbol'', PStr ''BTCUSDT'')]
          (log_msg INFO ''REQUEST'' empty_world)) = ''060f''"
  using sign_deterministic [of "test_ext offline" test_bot "[(''symbol'', PStr ''BTCUSDT'')]"
          empty_world]
  by (simp add: sign_def test_ext_def test_bot_def init_bot_def test_urlencode_def hexdigest_def
      Let_def)

section \<open>Validation comes before the network\<close>

text \<open>
  C5: an order whose side, in upper case, is neither BUY nor SELL, or whose type is none
  of MARKET, LIMIT and STOP_LIMIT, is rejected with a \<^verbatim>\<open>ValueError\<close> that says which, and a
  query or a cancellation without an order id and without a client order id is rejected
  likewise. The world is returned as it was: no HTTP call is attempted.
\<close>

theorem validation_before_network:
  "(\<not> (upper (o_side oreq) = ''BUY'' \<or> upper (o_side oreq) = ''SELL'') \<or>
    \<not> (upper (o_type oreq) = ''MARKET'' \<or> upper (o_type oreq) = ''LIMIT''
       \<or> upper (o_type oreq) = ''STOP_LIMIT'') \<longrightarrow>
      place_order x b oreq w =
        (Inl (ValueError
               (if \<not> (upper (o_side oreq) = ''BUY'' \<or> upper (o_side oreq) = ''SELL'')
                then ''side must be BUY or SELL''
                else ''order_type must be MARKET, LIMIT or STOP_LIMIT'')), w)) \<and>
   ((oid = None \<or> oid = Some 0) \<and> (orig = None \<or> orig = Some []) \<longrightarrow>
      get_order x b smb oid orig w =
        (Inl (ValueError ''Either order_id or orig_client_order_id must be provided''), w) \<and>
      cancel_order x b smb oid orig w =
        (Inl (ValueError ''Either order_id or orig_client_order_id must be provided''), w))"
  by (auto simp: place_order_def get_order_def cancel_order_def id_params_def Let_def)

theorem validation_before_network_witness:
  "upper ''hold'' \<noteq> ''BUY'' \<and> upper ''hold'' \<noteq> ''SELL'' \<and>
   place_order (test_ext offline) test_bot
     (simple_order ''btcusdt'' ''hold'' ''market'' (Some (Fin 1)) None) empty_world =
     (Inl (ValueError ''side must be BUY or SELL''), empty_world) \<and>
   upper ''buy'' = ''BUY'' \<and> upper ''iceberg'' \<noteq> ''MARKET'' \<and> upper ''iceberg'' \<noteq> ''LIMIT'' \<and>
   upper ''iceberg'' \<noteq> ''STOP_LIMIT'' \<and>
   place_order (test_ext offline) test_bot
     (simple_order ''btcusdt'' ''buy'' ''iceberg'' (Some (Fin 1)) None) empty_world =
     (Inl (ValueError ''order_type must be MARKET, LIMIT or STOP_LIMIT''), empty_world) \<and>
   get_order (test_ext offline) test_bot ''btcusdt'' None None empty_world =
     (Inl (ValueError ''Either order_id or orig_client_order_id must be provided''),
      empty_world) \<and>
   cancel_order (test_ext offline) test_bot ''btcusdt'' None None empty_world =
     (Inl (ValueError ''Either order_id or orig_client_order_id must be provided''),
      empty_world) \<and>
   sent empty_world = []"
  using validation_before_network [of "simple_order ''btcusdt'' ''hold'' ''market'' (Some (Fin 1)) None"
          "test_ext offline" test_bot empty_world None None "''btcusdt''"]
        validation_before_network [of "simple_order ''btcusdt'' ''buy'' ''iceberg'' (Some (Fin 1)) None"
          "test_ext offline" test_bot empty_world None None "''btcusdt''"]
  by (simp add: simple_order_def upper_def upper_char_def empty_world_def)

end
